theory Spec2Isabelle
  imports Main
begin

unbundle bit_operations_syntax

section \<open>Python values and the operating-system interface of sibackup.py\<close>

text \<open>
  The program is a single Python module. Its functions read three globals (\<open>args\<close>,
  \<open>info_data\<close>, \<open>timer\<close>) and call \<open>os\<close>, \<open>os.path\<close> and \<open>shutil\<close>. In the model
  \<^item> \<open>args\<close> is a record passed to every function,
  \<^item> \<open>info_data\<close> and the file system are threaded through as a \<open>world\<close>,
  \<^item> the library calls are the fields of a record \<open>os\<close> over an arbitrary type of
    file-system states, so every general theorem holds for every behaviour of the
    platform; a small POSIX-like file system instantiates it for the concrete runs,
  \<^item> an exception is a value: a call that can raise returns the exception (or \<open>None\<close>),
  \<^item> \<open>timer\<close> and the \<open>time_spent\<close> entries of \<open>info_data\<close> read the wall clock and
    are left out; no branch of the program depends on them,
  \<^item> logging is left out.
\<close>

datatype exn = PermissionError | FileNotFoundError | AttributeError | ZeroDivisionError | OSError

text \<open>The fields of \<open>os.stat_result\<close> that the program reads.\<close>

record stat_result =
  st_mode :: nat
  st_ino :: nat
  st_dev :: nat
  st_size :: int
  st_mtime :: int

definition S_IWRITE :: nat where
  "S_IWRITE = 128"

definition S_ISDIR :: "nat \<Rightarrow> bool" where
  "S_ISDIR mode \<longleftrightarrow> (mode AND 61440) = 16384"

definition S_ISREG :: "nat \<Rightarrow> bool" where
  "S_ISREG mode \<longleftrightarrow> (mode AND 61440) = 32768"

text \<open>
  Every call that changes the file system is recorded, in order, with its arguments.
\<close>

datatype fs_call =
    Mkdir string
  | Makedirs string
  | Chmod string nat
  | Copy2 string string
  | Move string string
  | Rmtree string
  | Remove string

text \<open>
  The platform. A probe reads the state; a mutating call returns the new state and the
  exception it raised, if any (a failing call may have changed the state already).
  \<open>os.path.exists\<close> and \<open>os.path.isdir\<close> never raise. \<open>shutil_rmtree\<close> is the call
  with the program's \<open>onerror\<close> handler.
\<close>

record 'fs os =
  os_stat :: "'fs \<Rightarrow> string \<Rightarrow> exn + stat_result"
  os_listdir :: "'fs \<Rightarrow> string \<Rightarrow> exn + string list"
  os_path_exists :: "'fs \<Rightarrow> string \<Rightarrow> bool"
  os_path_isdir :: "'fs \<Rightarrow> string \<Rightarrow> bool"
  os_path_join :: "string \<Rightarrow> string \<Rightarrow> string"
  os_path_abspath :: "string \<Rightarrow> string"
  os_mkdir :: "'fs \<Rightarrow> string \<Rightarrow> 'fs \<times> exn option"
  os_makedirs :: "'fs \<Rightarrow> string \<Rightarrow> 'fs \<times> exn option"
  os_chmod :: "'fs \<Rightarrow> string \<Rightarrow> nat \<Rightarrow> 'fs \<times> exn option"
  os_remove :: "'fs \<Rightarrow> string \<Rightarrow> 'fs \<times> exn option"
  shutil_copy2 :: "'fs \<Rightarrow> string \<Rightarrow> string \<Rightarrow> 'fs \<times> exn option"
  shutil_move :: "'fs \<Rightarrow> string \<Rightarrow> string \<Rightarrow> 'fs \<times> exn option"
  shutil_rmtree :: "'fs \<Rightarrow> string \<Rightarrow> 'fs \<times> exn option"

text \<open>The parsed command line (\<open>args\<close>).\<close>

record args =
  source :: string
  destination :: string
  depth :: "int option"
  copymode :: int
  conflictmode :: int
  archivepath :: string
  simulate :: bool

text \<open>The counters of \<open>info_data\<close> that the program changes.\<close>

record info =
  files_num_processed :: int
  files_num_copied :: int
  files_size_copied :: int
  files_num_skipped :: int
  files_size_skipped :: int
  files_not_copied :: int
  folders_num_created :: int
  misc_conflicts_resolved :: int

definition info_data_init :: info where
  "info_data_init = \<lparr>files_num_processed = 0, files_num_copied = 0, files_size_copied = 0,
     files_num_skipped = 0, files_size_skipped = 0, files_not_copied = 0,
     folders_num_created = 0, misc_conflicts_resolved = 0\<rparr>"

record 'fs world =
  fs :: 'fs
  info_data :: info
  calls :: "fs_call list"

definition upd_info :: "(info \<Rightarrow> info) \<Rightarrow> 'fs world \<Rightarrow> 'fs world" where
  "upd_info f w = w\<lparr>info_data := f (info_data w)\<rparr>"

text \<open>A mutating call: the state changes, the call is recorded, the exception is handed back.\<close>

definition mutate :: "fs_call \<Rightarrow> ('fs \<Rightarrow> 'fs \<times> exn option) \<Rightarrow> 'fs world \<Rightarrow> exn option \<times> 'fs world" where
  "mutate c f w = (case f (fs w) of (fs', e) \<Rightarrow> (e, w\<lparr>fs := fs', calls := calls w @ [c]\<rparr>))"

text \<open>
  A function call returns a value or raises. A loop body or a block falls through
  (\<open>Next\<close>) or leaves the enclosing function (\<open>Exit\<close>).
\<close>

datatype result = Return int | Raise exn

datatype flow = Next | Exit result

section \<open>StatHelper\<close>

text \<open>
  An attribute that \<open>__init__\<close> did not assign is \<open>None\<close>; reading it raises
  \<open>AttributeError\<close>.
\<close>

record StatHelper =
  path_name :: string
  stats :: "stat_result option"
  attr_exists :: "bool option"
  attr_has_permission :: "bool option"

text \<open>The three objects that \<open>__init__\<close> can leave behind, one for each branch.\<close>

definition stat_found :: "string \<Rightarrow> stat_result \<Rightarrow> StatHelper" where
  "stat_found p s = \<lparr>path_name = p, stats = Some s, attr_exists = Some True,
     attr_has_permission = Some True\<rparr>"

definition stat_missing :: "string \<Rightarrow> StatHelper" where
  "stat_missing p = \<lparr>path_name = p, stats = None, attr_exists = Some False,
     attr_has_permission = Some True\<rparr>"

definition stat_denied :: "string \<Rightarrow> StatHelper" where
  "stat_denied p = \<lparr>path_name = p, stats = None, attr_exists = None,
     attr_has_permission = Some False\<rparr>"

definition StatHelper_init :: "'fs os \<Rightarrow> 'fs \<Rightarrow> string \<Rightarrow> exn + StatHelper" where
  "StatHelper_init os f p =
     (case os_stat os f p of
        Inr s \<Rightarrow> Inr (stat_found p s)
      | Inl e \<Rightarrow>
          if e = FileNotFoundError then Inr (stat_missing p)
          else if e = PermissionError then Inr (stat_denied p)
          else Inl e)"

definition attribute :: "'a option \<Rightarrow> exn + 'a" where
  "attribute v = (case v of None \<Rightarrow> Inl AttributeError | Some x \<Rightarrow> Inr x)"

definition has_permission :: "StatHelper \<Rightarrow> exn + bool" where
  "has_permission sh = attribute (attr_has_permission sh)"

definition sh_exists :: "StatHelper \<Rightarrow> exn + bool" where
  "sh_exists sh = attribute (attr_exists sh)"

definition isdir :: "StatHelper \<Rightarrow> exn + bool" where
  "isdir sh = map_sum id (\<lambda>s. S_ISDIR (st_mode s)) (attribute (stats sh))"

definition getsize :: "StatHelper \<Rightarrow> exn + int" where
  "getsize sh = map_sum id st_size (attribute (stats sh))"

definition getmtime :: "StatHelper \<Rightarrow> exn + int" where
  "getmtime sh = map_sum id st_mtime (attribute (stats sh))"

definition haswrite :: "StatHelper \<Rightarrow> exn + nat" where
  "haswrite sh = map_sum id (\<lambda>s. st_mode s AND S_IWRITE) (attribute (stats sh))"

definition samestat :: "StatHelper \<Rightarrow> StatHelper \<Rightarrow> exn + bool" where
  "samestat sh other =
     (case attribute (stats sh) of
        Inl e \<Rightarrow> Inl e
      | Inr s \<Rightarrow>
         (case attribute (stats other) of
            Inl e \<Rightarrow> Inl e
          | Inr t \<Rightarrow> Inr (st_ino s = st_ino t \<and> st_dev s = st_dev t)))"

section \<open>copy\_file\<close>

text \<open>
  Inside the \<open>try\<close>, \<open>num_copied\<close> is incremented before \<open>getsize\<close> is called; only
  \<open>PermissionError\<close> and \<open>FileNotFoundError\<close> are caught.
\<close>

definition count_copied :: "StatHelper \<Rightarrow> 'fs world \<Rightarrow> exn option \<times> 'fs world" where
  "count_copied source_file_stats w =
     (let w1 = upd_info (\<lambda>i. i\<lparr>files_num_copied := files_num_copied i + 1\<rparr>) w in
      case getsize source_file_stats of
        Inl e \<Rightarrow> (Some e, w1)
      | Inr n \<Rightarrow> (None, upd_info (\<lambda>i. i\<lparr>files_size_copied := files_size_copied i + n\<rparr>) w1))"

definition copy_file :: "'fs os \<Rightarrow> args \<Rightarrow> StatHelper \<Rightarrow> StatHelper \<Rightarrow> 'fs world \<Rightarrow> exn option \<times> 'fs world" where
  "copy_file os a source_file_stats dest_file_stats w =
     (if \<not> simulate a then
        (case mutate (Copy2 (path_name source_file_stats) (path_name dest_file_stats))
                (\<lambda>f. shutil_copy2 os f (path_name source_file_stats) (path_name dest_file_stats)) w of
           (None, w1) \<Rightarrow>
             (case count_copied source_file_stats w1 of
                (Some e, w2) \<Rightarrow>
                  if e = PermissionError \<or> e = FileNotFoundError then
                    (None, upd_info (\<lambda>i. i\<lparr>files_not_copied := files_not_copied i + 1\<rparr>) w2)
                  else (Some e, w2)
              | (None, w2) \<Rightarrow> (None, w2))
         | (Some e, w1) \<Rightarrow>
             if e = PermissionError \<or> e = FileNotFoundError then
               (None, upd_info (\<lambda>i. i\<lparr>files_not_copied := files_not_copied i + 1\<rparr>) w1)
             else (Some e, w1))
      else count_copied source_file_stats w)"

section \<open>copy\_folder\<close>

subsection \<open>The file branch of the source loop (lines 351--388)\<close>

datatype action = Copy | Pass | Skip

text \<open>Python's \<open>c and r\<close> where evaluating \<open>r\<close> may raise: \<open>r\<close> is not evaluated when \<open>c\<close> is false.\<close>

definition py_and :: "bool \<Rightarrow> (exn + bool) \<Rightarrow> exn + bool" where
  "py_and c r = (if c then r else Inr False)"

definition differ :: "(exn + int) \<Rightarrow> (exn + int) \<Rightarrow> exn + bool" where
  "differ x y =
     (case x of
        Inl e \<Rightarrow> Inl e
      | Inr u \<Rightarrow> (case y of Inl e \<Rightarrow> Inl e | Inr v \<Rightarrow> Inr (u \<noteq> v)))"

text \<open>Which branch of the \<open>if\<close>/\<open>elif\<close> chain of lines 361--387 is taken.\<close>

definition choose_action :: "args \<Rightarrow> StatHelper \<Rightarrow> StatHelper \<Rightarrow> exn + action" where
  "choose_action a source_item_stats dest_item_stats =
     (case sh_exists dest_item_stats of
        Inl e \<Rightarrow> Inl e
      | Inr ex \<Rightarrow>
         (if \<not> ex \<or> copymode a = 0 then Inr Copy
          else
            (case py_and (copymode a \<ge> 1)
                    (differ (getmtime source_item_stats) (getmtime dest_item_stats)) of
               Inl e \<Rightarrow> Inl e
             | Inr True \<Rightarrow> Inr Copy
             | Inr False \<Rightarrow>
                (case py_and (copymode a \<ge> 2)
                        (differ (getsize source_item_stats) (getsize dest_item_stats)) of
                   Inl e \<Rightarrow> Inl e
                 | Inr True \<Rightarrow> Inr Copy
                 | Inr False \<Rightarrow> (if copymode a = 3 then Inr Pass else Inr Skip)))))"

definition count_processed :: "'fs world \<Rightarrow> 'fs world" where
  "count_processed w = upd_info (\<lambda>i. i\<lparr>files_num_processed := files_num_processed i + 1\<rparr>) w"

definition process_file :: "'fs os \<Rightarrow> args \<Rightarrow> StatHelper \<Rightarrow> StatHelper \<Rightarrow> 'fs world \<Rightarrow> exn option \<times> 'fs world" where
  "process_file os a source_item_stats dest_item_stats w =
     (case choose_action a source_item_stats dest_item_stats of
        Inl e \<Rightarrow> (Some e, w)
      | Inr Copy \<Rightarrow>
          (case copy_file os a source_item_stats dest_item_stats w of
             (None, w1) \<Rightarrow> (None, count_processed w1)
           | (Some e, w1) \<Rightarrow> (Some e, w1))
      | Inr Pass \<Rightarrow> (None, count_processed w)
      | Inr Skip \<Rightarrow>
          (let w1 = upd_info (\<lambda>i. i\<lparr>files_num_skipped := files_num_skipped i + 1\<rparr>) w in
           case getsize source_item_stats of
             Inl e \<Rightarrow> (Some e, w1)
           | Inr n \<Rightarrow>
               (None, count_processed
                  (upd_info (\<lambda>i. i\<lparr>files_size_skipped := files_size_skipped i + n\<rparr>) w1))))"

subsection \<open>The conflict loop (lines 258--325)\<close>

definition count_created :: "'fs world \<Rightarrow> 'fs world" where
  "count_created w = upd_info (\<lambda>i. i\<lparr>folders_num_created := folders_num_created i + 1\<rparr>) w"

definition count_resolved :: "'fs world \<Rightarrow> 'fs world" where
  "count_resolved w =
     upd_info (\<lambda>i. i\<lparr>misc_conflicts_resolved := misc_conflicts_resolved i + 1\<rparr>) w"

text \<open>Lines 273--276: the write bit is set whether or not the run is a simulation.\<close>

definition ensure_write :: "'fs os \<Rightarrow> StatHelper \<Rightarrow> string \<Rightarrow> 'fs world \<Rightarrow> exn option \<times> 'fs world" where
  "ensure_write os conflict_item_stats conflict_item_path w =
     (case haswrite conflict_item_stats of
        Inl e \<Rightarrow> (Some e, w)
      | Inr b \<Rightarrow>
          if b = 0 then
            mutate (Chmod conflict_item_path S_IWRITE)
              (\<lambda>f. os_chmod os f conflict_item_path S_IWRITE) w
          else (None, w))"

text \<open>Lines 278--306: archive one conflict.\<close>

definition archive_conflict :: "'fs os \<Rightarrow> args \<Rightarrow> string \<Rightarrow> string \<Rightarrow> string \<Rightarrow> 'fs world \<Rightarrow> flow \<times> 'fs world" where
  "archive_conflict os a archive_path current_archive_path conflict_item_path w =
     (if \<not> conflict_item_path = archive_path then
        (case
           (if \<not> os_path_exists os (fs w) current_archive_path then
              (if \<not> simulate a then
                 (case mutate (Makedirs current_archive_path)
                         (\<lambda>f. os_makedirs os f current_archive_path) w of
                    (None, w1) \<Rightarrow> (Next, count_created w1)
                  | (Some e, w1) \<Rightarrow>
                      if e = PermissionError then (Exit (Return 0), w1)
                      else (Exit (Raise e), w1))
               else (Next, count_created w))
            else (Next, w)) of
           (Exit r, w1) \<Rightarrow> (Exit r, w1)
         | (Next, w1) \<Rightarrow>
             if \<not> simulate a then
               (case mutate (Move conflict_item_path current_archive_path)
                       (\<lambda>f. shutil_move os f conflict_item_path current_archive_path) w1 of
                  (None, w2) \<Rightarrow> (Next, count_resolved w2)
                | (Some e, w2) \<Rightarrow>
                    if e = PermissionError then (Next, w2) else (Exit (Raise e), w2))
             else (Next, count_resolved w1))
      else (Next, w))"

text \<open>Lines 307--325: delete one conflict.\<close>

definition delete_conflict :: "'fs os \<Rightarrow> args \<Rightarrow> string \<Rightarrow> 'fs world \<Rightarrow> flow \<times> 'fs world" where
  "delete_conflict os a conflict_item_path w =
     (if \<not> simulate a then
        (case
           (if os_path_isdir os (fs w) conflict_item_path then
              mutate (Rmtree conflict_item_path) (\<lambda>f. shutil_rmtree os f conflict_item_path) w
            else
              mutate (Remove conflict_item_path) (\<lambda>f. os_remove os f conflict_item_path) w) of
           (None, w1) \<Rightarrow> (Next, count_resolved w1)
         | (Some e, w1) \<Rightarrow>
             if e = PermissionError then (Next, w1) else (Exit (Raise e), w1))
      else (Next, count_resolved w))"

text \<open>The body of the conflict loop for one item.\<close>

definition resolve_conflict :: "'fs os \<Rightarrow> args \<Rightarrow> string \<Rightarrow> string \<Rightarrow> string \<Rightarrow> string \<Rightarrow> 'fs world \<Rightarrow> flow \<times> 'fs world" where
  "resolve_conflict os a archive_path current_dest_path current_archive_path conflict_item w =
     (let conflict_item_path = os_path_join os current_dest_path conflict_item in
      case StatHelper_init os (fs w) conflict_item_path of
        Inl e \<Rightarrow> (Exit (Raise e), w)
      | Inr conflict_item_stats \<Rightarrow>
          if conflictmode a = 0 then (Next, count_resolved w)
          else
            (case ensure_write os conflict_item_stats conflict_item_path w of
               (Some e, w1) \<Rightarrow> (Exit (Raise e), w1)
             | (None, w1) \<Rightarrow>
                 if conflictmode a = 1 then
                   archive_conflict os a archive_path current_archive_path conflict_item_path w1
                 else delete_conflict os a conflict_item_path w1))"

fun resolve_conflicts :: "'fs os \<Rightarrow> args \<Rightarrow> string \<Rightarrow> string \<Rightarrow> string \<Rightarrow> string list \<Rightarrow> 'fs world \<Rightarrow> flow \<times> 'fs world" where
  "resolve_conflicts os a archive_path current_dest_path current_archive_path [] w = (Next, w)"
| "resolve_conflicts os a archive_path current_dest_path current_archive_path (conflict_item # rest) w =
     (case resolve_conflict os a archive_path current_dest_path current_archive_path conflict_item w of
        (Exit r, w1) \<Rightarrow> (Exit r, w1)
      | (Next, w1) \<Rightarrow>
          resolve_conflicts os a archive_path current_dest_path current_archive_path rest w1)"

text \<open>
  Line 256, \<open>list(set(dest_list) - set(source_list))\<close>. Python leaves the order of a
  set unspecified; the model takes the names in the order of \<open>dest_list\<close>.
\<close>

definition conflict_list :: "string list \<Rightarrow> string list \<Rightarrow> string list" where
  "conflict_list dest_list source_list = filter (\<lambda>x. x \<notin> set source_list) (remdups dest_list)"

subsection \<open>The source loop (lines 327--388)\<close>

text \<open>
  \<open>recurse\<close> is the recursive call of \<open>copy_folder\<close> with the three roots fixed; it
  returns \<open>None\<close> when the recursion budget is used up.
\<close>

fun process_source_items :: "'fs os \<Rightarrow> args \<Rightarrow> (string \<Rightarrow> int \<Rightarrow> 'fs world \<Rightarrow> (result \<times> 'fs world) option) \<Rightarrow> string \<Rightarrow> int \<Rightarrow> string \<Rightarrow> string \<Rightarrow> string list \<Rightarrow> 'fs world \<Rightarrow> (flow \<times> 'fs world) option" where
  "process_source_items os a recurse current_folder dep current_source_path current_dest_path [] w =
     Some (Next, w)"
| "process_source_items os a recurse current_folder dep current_source_path current_dest_path (source_item # rest) w =
     (let source_item_path = os_path_join os current_source_path source_item in
      case StatHelper_init os (fs w) source_item_path of
        Inl e \<Rightarrow> Some (Exit (Raise e), w)
      | Inr source_item_stats \<Rightarrow>
         (case has_permission source_item_stats of
            Inl e \<Rightarrow> Some (Exit (Raise e), w)
          | Inr False \<Rightarrow> Some (Exit (Return 0), w)
          | Inr True \<Rightarrow>
             (case isdir source_item_stats of
                Inl e \<Rightarrow> Some (Exit (Raise e), w)
              | Inr True \<Rightarrow>
                 (case recurse (os_path_join os current_folder source_item) (dep + 1) w of
                    None \<Rightarrow> None
                  | Some (Raise e, w1) \<Rightarrow> Some (Exit (Raise e), w1)
                  | Some (Return res, w1) \<Rightarrow>
                      if res \<noteq> 0 then Some (Exit (Return res), w1)
                      else process_source_items os a recurse current_folder dep
                             current_source_path current_dest_path rest w1)
              | Inr False \<Rightarrow>
                 (let dest_item_path = os_path_join os current_dest_path source_item in
                  case StatHelper_init os (fs w) dest_item_path of
                    Inl e \<Rightarrow> Some (Exit (Raise e), w)
                  | Inr dest_item_stats \<Rightarrow>
                     (case process_file os a source_item_stats dest_item_stats w of
                        (Some e, w1) \<Rightarrow> Some (Exit (Raise e), w1)
                      | (None, w1) \<Rightarrow>
                          process_source_items os a recurse current_folder dep
                            current_source_path current_dest_path rest w1)))))"

subsection \<open>One directory level\<close>

text \<open>Lines 221--231: create the destination folder if it does not exist.\<close>

definition ensure_dest_folder :: "'fs os \<Rightarrow> args \<Rightarrow> string \<Rightarrow> 'fs world \<Rightarrow> flow \<times> 'fs world" where
  "ensure_dest_folder os a current_dest_path w =
     (if \<not> os_path_exists os (fs w) current_dest_path then
        (if \<not> simulate a then
           (case mutate (Mkdir current_dest_path) (\<lambda>f. os_mkdir os f current_dest_path) w of
              (None, w1) \<Rightarrow> (Next, count_created w1)
            | (Some e, w1) \<Rightarrow>
                if e = PermissionError then (Exit (Return 0), w1) else (Exit (Raise e), w1))
         else (Next, w))
      else (Next, w))"

text \<open>Lines 255--390: the two loops, once both listings are known.\<close>

definition process_lists :: "'fs os \<Rightarrow> args \<Rightarrow> (string \<Rightarrow> int \<Rightarrow> 'fs world \<Rightarrow> (result \<times> 'fs world) option) \<Rightarrow> string \<Rightarrow> string \<Rightarrow> int \<Rightarrow> string \<Rightarrow> string \<Rightarrow> string \<Rightarrow> string list \<Rightarrow> string list \<Rightarrow> 'fs world \<Rightarrow> (result \<times> 'fs world) option" where
  "process_lists os a recurse archive_path current_folder dep current_source_path
       current_dest_path current_archive_path source_list dest_list w =
     (case resolve_conflicts os a archive_path current_dest_path current_archive_path
             (conflict_list dest_list source_list) w of
        (Exit r, w1) \<Rightarrow> Some (r, w1)
      | (Next, w1) \<Rightarrow>
         (case process_source_items os a recurse current_folder dep current_source_path
                 current_dest_path source_list w1 of
            None \<Rightarrow> None
          | Some (Exit r, w2) \<Rightarrow> Some (r, w2)
          | Some (Next, w2) \<Rightarrow> Some (Return 0, w2)))"

text \<open>Lines 216--253 followed by the loops: everything after the depth check.\<close>

definition copy_folder_body :: "'fs os \<Rightarrow> args \<Rightarrow> (string \<Rightarrow> int \<Rightarrow> 'fs world \<Rightarrow> (result \<times> 'fs world) option) \<Rightarrow> string \<Rightarrow> string \<Rightarrow> string \<Rightarrow> string \<Rightarrow> int \<Rightarrow> 'fs world \<Rightarrow> (result \<times> 'fs world) option" where
  "copy_folder_body os a recurse source_path dest_path archive_path current_folder dep w =
     (let current_source_path = os_path_join os source_path current_folder;
          current_dest_path = os_path_join os dest_path current_folder;
          current_archive_path = os_path_join os archive_path current_folder in
      case ensure_dest_folder os a current_dest_path w of
        (Exit r, w1) \<Rightarrow> Some (r, w1)
      | (Next, w1) \<Rightarrow>
         (case os_listdir os (fs w1) current_source_path of
            Inl e \<Rightarrow> if e = PermissionError then Some (Return 0, w1) else Some (Raise e, w1)
          | Inr source_list \<Rightarrow>
             (case os_listdir os (fs w1) current_dest_path of
                Inl e \<Rightarrow>
                  if e = FileNotFoundError then
                    (if simulate a then
                       process_lists os a recurse archive_path current_folder dep
                         current_source_path current_dest_path current_archive_path
                         source_list [] w1
                     else Some (Return 1, w1))
                  else Some (Raise e, w1)
              | Inr dest_list \<Rightarrow>
                  process_lists os a recurse archive_path current_folder dep
                    current_source_path current_dest_path current_archive_path
                    source_list dest_list w1)))"

text \<open>
  \<open>copy_folder\<close>. The first argument bounds the nesting of recursive calls: the
  program recurses as deep as the source tree is (it follows links and detects no
  cycle), and a call that would need more nesting than the budget yields \<open>None\<close>.
\<close>

primrec copy_folder :: "nat \<Rightarrow> 'fs os \<Rightarrow> args \<Rightarrow> string \<Rightarrow> string \<Rightarrow> string \<Rightarrow> string \<Rightarrow> int \<Rightarrow> 'fs world \<Rightarrow> (result \<times> 'fs world) option" where
  "copy_folder 0 os a source_path dest_path archive_path current_folder dep w = None"
| "copy_folder (Suc n) os a source_path dest_path archive_path current_folder dep w =
     (if depth a \<noteq> None \<and> dep > the (depth a) then Some (Return 0, w)
      else copy_folder_body os a (copy_folder n os a source_path dest_path archive_path)
             source_path dest_path archive_path current_folder dep w)"

section \<open>sibackup\<close>

text \<open>Lines 404--417 and 432--445: create a root folder that does not exist.\<close>

definition ensure_root :: "'fs os \<Rightarrow> args \<Rightarrow> string \<Rightarrow> 'fs world \<Rightarrow> flow \<times> 'fs world" where
  "ensure_root os a p w =
     (if \<not> os_path_exists os (fs w) p then
        (if \<not> simulate a then
           (case mutate (Makedirs p) (\<lambda>f. os_makedirs os f p) w of
              (None, w1) \<Rightarrow> (Next, count_created w1)
            | (Some e, w1) \<Rightarrow>
                if e = PermissionError then (Exit (Return 1), w1) else (Exit (Raise e), w1))
         else (Next, count_created w))
      else (Next, w))"

text \<open>
  Lines 457--505: the report divides by the total of copied and skipped bytes when a
  file was copied or skipped.
\<close>

definition report :: "info \<Rightarrow> exn option" where
  "report i =
     (let total_data_copied_or_skipped = files_size_copied i + files_size_skipped i in
      if files_num_copied i \<noteq> 0 \<and> total_data_copied_or_skipped = 0 then Some ZeroDivisionError
      else if files_num_skipped i \<noteq> 0 \<and> total_data_copied_or_skipped = 0
        then Some ZeroDivisionError
      else None)"

definition sibackup :: "nat \<Rightarrow> 'fs os \<Rightarrow> args \<Rightarrow> 'fs world \<Rightarrow> (result \<times> 'fs world) option" where
  "sibackup n os a w =
     (let source_path = os_path_abspath os (source a) in
      if \<not> os_path_exists os (fs w) source_path then Some (Return 1, w)
      else
        (let dest_path = os_path_abspath os (destination a) in
         (case ensure_root os a dest_path w of
            (Exit r, w1) \<Rightarrow> Some (r, w1)
          | (Next, w1) \<Rightarrow>
             (if depth a \<noteq> None \<and> the (depth a) < 0 then Some (Return 1, w1)
              else if copymode a \<notin> set [0, 1, 2, 3] then Some (Return 1, w1)
              else if conflictmode a \<notin> set [0, 1, 2] then Some (Return 1, w1)
              else
                (let archive_path = os_path_join os dest_path (archivepath a) in
                 (case (if conflictmode a = 1 then ensure_root os a archive_path w1
                        else (Next, w1)) of
                    (Exit r, w2) \<Rightarrow> Some (r, w2)
                  | (Next, w2) \<Rightarrow>
                     (case copy_folder n os a source_path dest_path archive_path [] 0 w2 of
                        None \<Rightarrow> None
                      | Some (Raise e, w3) \<Rightarrow> Some (Raise e, w3)
                      | Some (Return status, w3) \<Rightarrow>
                         (case report (info_data w3) of
                            Some e \<Rightarrow> Some (Raise e, w3)
                          | None \<Rightarrow> Some (Return status, w3)))))))))"

section \<open>A small POSIX file system for the concrete runs\<close>

text \<open>
  The concrete runs below need a platform. This one is a table from resolved paths
  (the list of components, without empty components and without \<open>.\<close>) to
  \<open>stat\<close> records, with the permission checks of a non-root owner: searching a
  directory needs its \<open>x\<close> bit, listing it its \<open>r\<close> bit, changing its entries its
  \<open>w\<close> bit. There are no links and no \<open>..\<close> components; the working directory
  is \<open>/\<close>.
\<close>

type_synonym pfs = "(string list \<times> stat_result) list"

fun split_path :: "string \<Rightarrow> string list" where
  "split_path [] = [[]]"
| "split_path (c # cs) =
     (if c = CHR ''/'' then [] # split_path cs
      else (case split_path cs of [] \<Rightarrow> [[c]] | x # xs \<Rightarrow> (c # x) # xs))"

definition resolve :: "string \<Rightarrow> string list" where
  "resolve p = filter (\<lambda>c. c \<noteq> [] \<and> c \<noteq> ''.'') (split_path p)"

definition unresolve :: "string list \<Rightarrow> string" where
  "unresolve k = (if k = [] then ''/'' else concat (map (\<lambda>c. CHR ''/'' # c) k))"

text \<open>\<open>posixpath.join\<close> with two arguments, and \<open>abspath\<close> from the working directory \<open>/\<close>.\<close>

definition posix_join :: "string \<Rightarrow> string \<Rightarrow> string" where
  "posix_join a b =
     (if b \<noteq> [] \<and> hd b = CHR ''/'' then b
      else if a = [] \<or> last a = CHR ''/'' then a @ b
      else a @ ''/'' @ b)"

definition posix_abspath :: "string \<Rightarrow> string" where
  "posix_abspath p = unresolve (resolve p)"

definition has_bit :: "nat \<Rightarrow> stat_result \<Rightarrow> bool" where
  "has_bit b s \<longleftrightarrow> (st_mode s AND b) \<noteq> 0"

definition searchable :: "pfs \<Rightarrow> string list \<Rightarrow> bool" where
  "searchable f k =
     list_all (\<lambda>i. case map_of f (take i k) of None \<Rightarrow> True | Some s \<Rightarrow> has_bit 64 s)
       [0..<length k]"

definition posix_stat_key :: "pfs \<Rightarrow> string list \<Rightarrow> exn + stat_result" where
  "posix_stat_key f k =
     (if \<not> searchable f k then Inl PermissionError
      else (case map_of f k of None \<Rightarrow> Inl FileNotFoundError | Some s \<Rightarrow> Inr s))"

definition posix_stat :: "pfs \<Rightarrow> string \<Rightarrow> exn + stat_result" where
  "posix_stat f p = posix_stat_key f (resolve p)"

definition posix_exists :: "pfs \<Rightarrow> string \<Rightarrow> bool" where
  "posix_exists f p = (case posix_stat f p of Inl e \<Rightarrow> False | Inr s \<Rightarrow> True)"

definition posix_isdir :: "pfs \<Rightarrow> string \<Rightarrow> bool" where
  "posix_isdir f p = (case posix_stat f p of Inl e \<Rightarrow> False | Inr s \<Rightarrow> S_ISDIR (st_mode s))"

definition children :: "pfs \<Rightarrow> string list \<Rightarrow> string list" where
  "children f k = map (\<lambda>e. last (fst e)) (filter (\<lambda>e. fst e \<noteq> [] \<and> butlast (fst e) = k) f)"

definition posix_listdir :: "pfs \<Rightarrow> string \<Rightarrow> exn + string list" where
  "posix_listdir f p =
     (case posix_stat f p of
        Inl e \<Rightarrow> Inl e
      | Inr s \<Rightarrow>
          if \<not> S_ISDIR (st_mode s) then Inl OSError
          else if \<not> has_bit 256 s then Inl PermissionError
          else Inr (children f (resolve p)))"

definition fresh_ino :: "pfs \<Rightarrow> nat" where
  "fresh_ino f = Suc (fold max (map (\<lambda>e. st_ino (snd e)) f) 0)"

definition put :: "string list \<Rightarrow> stat_result \<Rightarrow> pfs \<Rightarrow> pfs" where
  "put k s f = (if map_of f k = None then f @ [(k, s)] else map (\<lambda>e. if fst e = k then (k, s) else e) f)"

definition below :: "string list \<Rightarrow> string list \<Rightarrow> bool" where
  "below k k' \<longleftrightarrow> take (length k) k' = k"

text \<open>
  The parent directory of a new or removed entry: it must exist, be a directory and
  carry the \<open>w\<close> bit.
\<close>

definition writable_parent :: "pfs \<Rightarrow> string list \<Rightarrow> exn option" where
  "writable_parent f k =
     (if k = [] then Some OSError
      else (case posix_stat_key f (butlast k) of
        Inl e \<Rightarrow> Some e
      | Inr s \<Rightarrow>
          if \<not> S_ISDIR (st_mode s) then Some OSError
          else if \<not> has_bit 128 s then Some PermissionError
          else None))"

definition new_dir :: "pfs \<Rightarrow> string list \<Rightarrow> stat_result" where
  "new_dir f k = \<lparr>st_mode = 16877, st_ino = fresh_ino f,
     st_dev = (case map_of f (butlast k) of None \<Rightarrow> 0 | Some s \<Rightarrow> st_dev s),
     st_size = 0, st_mtime = 0\<rparr>"

definition mkdir_key :: "pfs \<Rightarrow> string list \<Rightarrow> pfs \<times> exn option" where
  "mkdir_key f k =
     (case posix_stat_key f k of
        Inr s \<Rightarrow> (f, Some OSError)
      | Inl e \<Rightarrow>
          if e \<noteq> FileNotFoundError then (f, Some e)
          else (case writable_parent f k of
            Some e' \<Rightarrow> (f, Some e')
          | None \<Rightarrow> (put k (new_dir f k) f, None)))"

definition posix_mkdir :: "pfs \<Rightarrow> string \<Rightarrow> pfs \<times> exn option" where
  "posix_mkdir f p = mkdir_key f (resolve p)"

text \<open>\<open>os.makedirs\<close>: the missing ancestors first, then the leaf, which must not exist.\<close>

fun makedirs_upto :: "pfs \<Rightarrow> string list \<Rightarrow> nat list \<Rightarrow> pfs \<times> exn option" where
  "makedirs_upto f k [] = mkdir_key f k"
| "makedirs_upto f k (i # is) =
     (if map_of f (take i k) \<noteq> None then makedirs_upto f k is
      else (case mkdir_key f (take i k) of
        (f', Some e) \<Rightarrow> (f', Some e)
      | (f', None) \<Rightarrow> makedirs_upto f' k is))"

definition posix_makedirs :: "pfs \<Rightarrow> string \<Rightarrow> pfs \<times> exn option" where
  "posix_makedirs f p = (let k = resolve p in makedirs_upto f k [1..<length k])"

definition posix_chmod :: "pfs \<Rightarrow> string \<Rightarrow> nat \<Rightarrow> pfs \<times> exn option" where
  "posix_chmod f p m =
     (case posix_stat f p of
        Inl e \<Rightarrow> (f, Some e)
      | Inr s \<Rightarrow> (put (resolve p) (s\<lparr>st_mode := (st_mode s AND 61440) OR (m AND 4095)\<rparr>) f, None))"

definition posix_remove :: "pfs \<Rightarrow> string \<Rightarrow> pfs \<times> exn option" where
  "posix_remove f p =
     (let k = resolve p in
      case posix_stat_key f k of
        Inl e \<Rightarrow> (f, Some e)
      | Inr s \<Rightarrow>
          if S_ISDIR (st_mode s) then (f, Some OSError)
          else (case writable_parent f k of
            Some e \<Rightarrow> (f, Some e)
          | None \<Rightarrow> (filter (\<lambda>e. fst e \<noteq> k) f, None)))"

text \<open>
  \<open>shutil.rmtree\<close> with the handler \<open>remove_read_only\<close>: an entry that cannot be removed
  is handed to the handler, which sets its mode to \<open>S_IWRITE\<close> and returns, and
  \<open>rmtree\<close> goes on. The table keeps it simple: the whole subtree goes when the
  parent is writable; otherwise the handler changes the mode of the directory and
  nothing is removed.
\<close>

definition posix_rmtree :: "pfs \<Rightarrow> string \<Rightarrow> pfs \<times> exn option" where
  "posix_rmtree f p =
     (let k = resolve p in
      case posix_stat_key f k of
        Inl e \<Rightarrow> (f, Some e)
      | Inr s \<Rightarrow>
         (case writable_parent f k of
            Some e \<Rightarrow> posix_chmod f p S_IWRITE
          | None \<Rightarrow> (filter (\<lambda>e. \<not> below k (fst e)) f, None)))"

text \<open>
  \<open>shutil.copy2\<close>: contents, mode and times of the source; a destination that is a
  directory receives the file under the source's name.
\<close>

definition posix_copy2 :: "pfs \<Rightarrow> string \<Rightarrow> string \<Rightarrow> pfs \<times> exn option" where
  "posix_copy2 f src dst =
     (case posix_stat f src of
        Inl e \<Rightarrow> (f, Some e)
      | Inr s \<Rightarrow>
          if S_ISDIR (st_mode s) then (f, Some OSError)
          else if \<not> has_bit 256 s then (f, Some PermissionError)
          else
            (let k = (if posix_isdir f dst then resolve dst @ [last (resolve src)]
                      else resolve dst) in
             case posix_stat_key f k of
               Inr t \<Rightarrow>
                 if S_ISDIR (st_mode t) then (f, Some OSError)
                 else if \<not> has_bit 128 t then (f, Some PermissionError)
                 else (put k (s\<lparr>st_ino := st_ino t, st_dev := st_dev t\<rparr>) f, None)
             | Inl e \<Rightarrow>
                 if e \<noteq> FileNotFoundError then (f, Some e)
                 else (case writable_parent f k of
                   Some e' \<Rightarrow> (f, Some e')
                 | None \<Rightarrow>
                     (put k (s\<lparr>st_ino := fresh_ino f,
                               st_dev := st_dev (new_dir f k)\<rparr>) f, None))))"

text \<open>
  \<open>shutil.move\<close>: into the destination when that is a directory, else onto it. A
  directory cannot be moved into itself, and an existing target is an error.
\<close>

definition posix_move :: "pfs \<Rightarrow> string \<Rightarrow> string \<Rightarrow> pfs \<times> exn option" where
  "posix_move f src dst =
     (let k = resolve src in
      case posix_stat_key f k of
        Inl e \<Rightarrow> (f, Some e)
      | Inr s \<Rightarrow>
         (let t = (if posix_isdir f dst then resolve dst @ [last k] else resolve dst) in
          if k = [] \<or> below k t then (f, Some OSError)
          else if map_of f t \<noteq> None then (f, Some OSError)
          else (case writable_parent f k of
            Some e \<Rightarrow> (f, Some e)
          | None \<Rightarrow>
             (case writable_parent f t of
                Some e \<Rightarrow> (f, Some e)
              | None \<Rightarrow>
                  (map (\<lambda>e. if below k (fst e) then (t @ drop (length k) (fst e), snd e) else e) f,
                   None)))))"

definition posix :: "pfs os" where
  "posix = \<lparr>os_stat = posix_stat, os_listdir = posix_listdir, os_path_exists = posix_exists,
     os_path_isdir = posix_isdir, os_path_join = posix_join, os_path_abspath = posix_abspath,
     os_mkdir = posix_mkdir, os_makedirs = posix_makedirs, os_chmod = posix_chmod,
     os_remove = posix_remove, shutil_copy2 = posix_copy2, shutil_move = posix_move,
     shutil_rmtree = posix_rmtree\<rparr>"

definition dir_node :: "nat \<Rightarrow> nat \<Rightarrow> stat_result" where
  "dir_node perm ino = \<lparr>st_mode = 16384 + perm, st_ino = ino, st_dev = 1, st_size = 0, st_mtime = 0\<rparr>"

definition file_node :: "nat \<Rightarrow> nat \<Rightarrow> int \<Rightarrow> int \<Rightarrow> stat_result" where
  "file_node perm ino sz mtime =
     \<lparr>st_mode = 32768 + perm, st_ino = ino, st_dev = 1, st_size = sz, st_mtime = mtime\<rparr>"

definition start :: "pfs \<Rightarrow> pfs world" where
  "start f = \<lparr>fs = f, info_data = info_data_init, calls = []\<rparr>"

definition default_args :: args where
  "default_args = \<lparr>source = ''/s'', destination = ''/d'', depth = None, copymode = 2,
     conflictmode = 2, archivepath = ''!!archive'', simulate = False\<rparr>"

section \<open>Definitions that follow the specification\<close>

text \<open>
  CopyDecisionPolicy as the specification words it (section 4.2), for a source file
  with metadata \<open>s\<close> and a destination that is missing (\<open>None\<close>) or has metadata \<open>t\<close>:
  destination missing, copy; mode \<open>always\<close>, copy; mode at least \<open>by-mtime\<close> and the
  modification times differ, copy; mode at least \<open>by-mtime-then-size\<close> and the sizes
  differ, copy; otherwise skip.
\<close>

datatype decision = DoCopy | DoSkip

definition policy_decision :: "int \<Rightarrow> stat_result \<Rightarrow> stat_result option \<Rightarrow> decision" where
  "policy_decision mode s d =
     (case d of
        None \<Rightarrow> DoCopy
      | Some t \<Rightarrow>
          if mode = 0 then DoCopy
          else if mode \<ge> 1 \<and> st_mtime s \<noteq> st_mtime t then DoCopy
          else if mode \<ge> 2 \<and> st_size s \<noteq> st_size t then DoCopy
          else DoSkip)"

text \<open>The object that probing the destination leaves behind, by what the probe found.\<close>

definition dest_probe :: "string \<Rightarrow> stat_result option \<Rightarrow> StatHelper" where
  "dest_probe p d = (case d of None \<Rightarrow> stat_missing p | Some t \<Rightarrow> stat_found p t)"

text \<open>
  The specification describes simulate mode as the same traversal with no-ops
  substituted for the mutating calls (section 5). \<open>dry os\<close> is the platform \<open>os\<close> with
  that substitution: creating, copying, moving and removing succeed and change
  nothing. \<open>os.chmod\<close> is kept, since the program calls it in both modes.
\<close>

definition no_op :: "'fs \<Rightarrow> 'fs \<times> exn option" where
  "no_op f = (f, None)"

definition dry :: "'fs os \<Rightarrow> 'fs os" where
  "dry os = os\<lparr>os_mkdir := \<lambda>f p. no_op f, os_makedirs := \<lambda>f p. no_op f,
     os_remove := \<lambda>f p. no_op f, shutil_copy2 := \<lambda>f p q. no_op f,
     shutil_move := \<lambda>f p q. no_op f, shutil_rmtree := \<lambda>f p. no_op f\<rparr>"

text \<open>The counters other than the number of folders created.\<close>

definition file_and_conflict_counters :: "info \<Rightarrow> int list" where
  "file_and_conflict_counters i = [files_num_processed i, files_num_copied i, files_size_copied i,
     files_num_skipped i, files_size_skipped i, files_not_copied i, misc_conflicts_resolved i]"

section \<open>Concrete runs\<close>


text \<open>
  The source \<open>/s\<close> holds the directory \<open>a\<close>, which can be listed but not searched
  (mode 0600), with two files, and the file \<open>z\<close>; the destination \<open>/d\<close> is empty.
\<close>

definition fs_unreadable :: pfs where
  "fs_unreadable =
     [([], dir_node 493 1), ([''s''], dir_node 493 2), ([''s'', ''a''], dir_node 384 3),
      ([''s'', ''a'', ''x''], file_node 420 4 3 10), ([''s'', ''a'', ''y''], file_node 420 5 4 10),
      ([''s'', ''z''], file_node 420 6 5 10), ([''d''], dir_node 493 7)]"

text \<open>An empty source; the destination holds the read-only file \<open>b\<close> (mode 0444).\<close>

definition fs_readonly_conflict :: pfs where
  "fs_readonly_conflict =
     [([], dir_node 493 1), ([''s''], dir_node 493 2), ([''d''], dir_node 493 3),
      ([''d'', ''b''], file_node 292 4 3 50)]"

text \<open>The destination holds an older, read-only copy of the source file \<open>f\<close>.\<close>

definition fs_readonly_dest :: pfs where
  "fs_readonly_dest =
     [([], dir_node 493 1), ([''s''], dir_node 493 2), ([''s'', ''f''], file_node 420 3 10 100),
      ([''d''], dir_node 493 4), ([''d'', ''f''], file_node 292 5 3 50)]"

text \<open>The source holds the directory \<open>a\<close> with one file; the destination is empty.\<close>

definition fs_new_folder :: pfs where
  "fs_new_folder =
     [([], dir_node 493 1), ([''s''], dir_node 493 2), ([''s'', ''a''], dir_node 493 3),
      ([''s'', ''a'', ''g''], file_node 420 4 7 100), ([''d''], dir_node 493 5)]"



text \<open>Only the source exists.\<close>

definition fs_no_dest :: pfs where
  "fs_no_dest = [([], dir_node 493 1), ([''s''], dir_node 493 2)]"

text \<open>The source holds a file and a directory with a file; both exist in no destination.\<close>

definition fs_two_levels :: pfs where
  "fs_two_levels =
     [([], dir_node 493 1), ([''s''], dir_node 493 2), ([''s'', ''f''], file_node 420 3 10 100),
      ([''s'', ''a''], dir_node 493 4), ([''s'', ''a'', ''g''], file_node 420 5 7 100),
      ([''d''], dir_node 493 6)]"


text \<open>The destination can be listed but not searched (mode 0600).\<close>

definition fs_dest_no_search :: pfs where
  "fs_dest_no_search =
     [([], dir_node 493 1), ([''s''], dir_node 493 2), ([''s'', ''f''], file_node 420 3 10 100),
      ([''d''], dir_node 384 4), ([''d'', ''f''], file_node 420 5 10 100)]"

text \<open>The destination holds a copy of \<open>f\<close> with the same size and modification time.\<close>

definition fs_same :: pfs where
  "fs_same =
     [([], dir_node 493 1), ([''s''], dir_node 493 2), ([''s'', ''f''], file_node 420 3 10 100),
      ([''d''], dir_node 493 4), ([''d'', ''f''], file_node 420 5 10 100)]"

text \<open>
  Three levels: the source holds \<open>a/b/h\<close>, \<open>a/g\<close> and \<open>f\<close>; the destination holds the
  empty directory \<open>a\<close>.
\<close>

definition fs_depth :: pfs where
  "fs_depth =
     [([], dir_node 493 1), ([''s''], dir_node 493 2), ([''s'', ''a''], dir_node 493 3),
      ([''s'', ''a'', ''b''], dir_node 493 4), ([''s'', ''a'', ''b'', ''h''], file_node 420 5 4 100),
      ([''s'', ''a'', ''g''], file_node 420 6 7 100), ([''s'', ''f''], file_node 420 7 10 100),
      ([''d''], dir_node 493 8), ([''d'', ''a''], dir_node 493 9)]"

definition limit_one :: args where
  "limit_one = default_args\<lparr>depth := Some 1\<rparr>"

text \<open>The world after \<open>a/g\<close> of \<open>fs_depth\<close> has been copied.\<close>

definition depth_after_g :: "pfs world" where
  "depth_after_g =
     \<lparr>fs = fs_depth @ [([''d'', ''a'', ''g''], file_node 420 10 7 100)],
      info_data = info_data_init\<lparr>files_num_processed := 1, files_num_copied := 1,
        files_size_copied := 7\<rparr>,
      calls = [Copy2 ''/s/a/g'' ''/d/a/g'']\<rparr>"

text \<open>The source \<open>/s\<close> itself can be listed but not searched (mode 0600).\<close>

definition fs_unreadable_root :: pfs where
  "fs_unreadable_root =
     [([], dir_node 493 1), ([''s''], dir_node 384 2), ([''s'', ''x''], file_node 420 3 3 10),
      ([''d''], dir_node 493 4)]"

text \<open>The world after \<open>/d/a\<close> has been created on \<open>fs_unreadable\<close>.\<close>

definition unreadable_after_mkdir :: "pfs world" where
  "unreadable_after_mkdir =
     \<lparr>fs = fs_unreadable @ [([''d'', ''a''], dir_node 493 8)],
      info_data = info_data_init\<lparr>folders_num_created := 1\<rparr>,
      calls = [Mkdir ''/d/a'']\<rparr>"

section \<open>Basic facts\<close>

lemmas prog_defs = sibackup_def ensure_root_def report_def copy_folder_body_def process_lists_def
  ensure_dest_folder_def conflict_list_def resolve_conflict_def delete_conflict_def
  archive_conflict_def ensure_write_def count_resolved_def count_created_def process_file_def
  count_processed_def choose_action_def differ_def py_and_def copy_file_def count_copied_def
  samestat_def haswrite_def getmtime_def getsize_def isdir_def sh_exists_def has_permission_def
  attribute_def StatHelper_init_def stat_found_def stat_missing_def stat_denied_def mutate_def
  upd_info_def info_data_init_def S_ISDIR_def S_IWRITE_def Let_def

lemmas posix_defs = posix_def posix_move_def posix_copy2_def posix_rmtree_def posix_remove_def
  posix_chmod_def posix_makedirs_def posix_mkdir_def mkdir_key_def new_dir_def
  writable_parent_def below_def put_def fresh_ino_def posix_listdir_def children_def
  posix_isdir_def posix_exists_def posix_stat_def posix_stat_key_def searchable_def has_bit_def
  posix_abspath_def posix_join_def unresolve_def resolve_def dir_node_def file_node_def
  start_def default_args_def

lemma StatHelper_init_found:
  "os_stat os f p = Inr s \<Longrightarrow> StatHelper_init os f p = Inr (stat_found p s)"
  by (simp add: StatHelper_init_def)

lemma StatHelper_init_missing:
  "os_stat os f p = Inl FileNotFoundError \<Longrightarrow> StatHelper_init os f p = Inr (stat_missing p)"
  by (simp add: StatHelper_init_def)

lemma StatHelper_init_denied:
  "os_stat os f p = Inl PermissionError \<Longrightarrow> StatHelper_init os f p = Inr (stat_denied p)"
  by (simp add: StatHelper_init_def)

lemma found_methods:
  "has_permission (stat_found p s) = Inr True"
  "sh_exists (stat_found p s) = Inr True"
  "isdir (stat_found p s) = Inr (S_ISDIR (st_mode s))"
  "getsize (stat_found p s) = Inr (st_size s)"
  "getmtime (stat_found p s) = Inr (st_mtime s)"
  "haswrite (stat_found p s) = Inr (st_mode s AND S_IWRITE)"
  "path_name (stat_found p s) = p"
  by (simp_all add: stat_found_def has_permission_def sh_exists_def isdir_def getsize_def
      getmtime_def haswrite_def attribute_def)

lemma missing_methods:
  "has_permission (stat_missing p) = Inr True"
  "sh_exists (stat_missing p) = Inr False"
  "isdir (stat_missing p) = Inl AttributeError"
  "getsize (stat_missing p) = Inl AttributeError"
  "getmtime (stat_missing p) = Inl AttributeError"
  "haswrite (stat_missing p) = Inl AttributeError"
  "path_name (stat_missing p) = p"
  by (simp_all add: stat_missing_def has_permission_def sh_exists_def isdir_def getsize_def
      getmtime_def haswrite_def attribute_def)

lemma denied_methods:
  "has_permission (stat_denied p) = Inr False"
  "sh_exists (stat_denied p) = Inl AttributeError"
  "isdir (stat_denied p) = Inl AttributeError"
  "getsize (stat_denied p) = Inl AttributeError"
  "getmtime (stat_denied p) = Inl AttributeError"
  "haswrite (stat_denied p) = Inl AttributeError"
  "path_name (stat_denied p) = p"
  by (simp_all add: stat_denied_def has_permission_def sh_exists_def isdir_def getsize_def
      getmtime_def haswrite_def attribute_def)

text \<open>How the source loop treats the status that a recursive call returns (lines 346--349).\<close>

lemma child_status_zero_continues:
  assumes "os_stat os (fs w) (os_path_join os csp item) = Inr s" and "S_ISDIR (st_mode s)"
    and "recurse (os_path_join os cur item) (dep + 1) w = Some (Return 0, w1)"
  shows "process_source_items os a recurse cur dep csp cdp (item # rest) w =
         process_source_items os a recurse cur dep csp cdp rest w1"
  using assms by (simp add: StatHelper_init_found found_methods)


text \<open>What \<open>copy_file\<close> leaves alone.\<close>

lemma count_copied_keeps:
  "count_copied src w = (e, w1) \<Longrightarrow>
     fs w1 = fs w \<and> calls w1 = calls w \<and>
     files_num_processed (info_data w1) = files_num_processed (info_data w) \<and>
     files_num_skipped (info_data w1) = files_num_skipped (info_data w) \<and>
     files_size_skipped (info_data w1) = files_size_skipped (info_data w)"
  by (auto simp add: count_copied_def upd_info_def Let_def split: sum.splits)

lemma copy_file_keeps_processed:
  assumes "copy_file os a src dst w = (e, w1)"
  shows "files_num_processed (info_data w1) = files_num_processed (info_data w) \<and>
     files_num_skipped (info_data w1) = files_num_skipped (info_data w) \<and>
     files_size_skipped (info_data w1) = files_size_skipped (info_data w)"
proof (cases "simulate a")
  case True
  with assms count_copied_keeps [of src w e w1] show ?thesis
    by (simp add: copy_file_def)
next
  case False
  obtain f' x where m: "shutil_copy2 os (fs w) (path_name src) (path_name dst) = (f', x)"
    by (cases "shutil_copy2 os (fs w) (path_name src) (path_name dst)")
  define w0 where "w0 = w\<lparr>fs := f', calls := calls w @ [Copy2 (path_name src) (path_name dst)]\<rparr>"
  obtain e2 w2 where c: "count_copied src w0 = (e2, w2)"
    by (cases "count_copied src w0")
  from count_copied_keeps [OF c] have k: "files_num_processed (info_data w2) = files_num_processed (info_data w)"
    "files_num_skipped (info_data w2) = files_num_skipped (info_data w)"
    "files_size_skipped (info_data w2) = files_size_skipped (info_data w)"
    by (simp_all add: w0_def)
  from assms False m c k show ?thesis
    by (auto simp add: copy_file_def mutate_def upd_info_def w0_def split: option.splits if_splits)
qed

text \<open>Every file that \<open>process_file\<close> completes is counted as processed (line 388).\<close>

lemma process_file_counts:
  assumes "process_file os a src dst w = (None, w1)"
  shows "files_num_processed (info_data w1) = files_num_processed (info_data w) + 1"
proof -
  obtain e w2 where c: "copy_file os a src dst w = (e, w2)" by (cases "copy_file os a src dst w")
  from copy_file_keeps_processed [OF c]
  have "files_num_processed (info_data w2) = files_num_processed (info_data w)" by simp
  with assms c show ?thesis
    by (auto simp add: process_file_def count_processed_def upd_info_def Let_def
        split: sum.splits action.splits option.splits prod.splits if_splits)
qed

text \<open>The source loop goes through its entries in order.\<close>

lemma process_source_items_append:
  "process_source_items os a recurse cur dep csp cdp pre w = Some (Next, w') \<Longrightarrow>
   process_source_items os a recurse cur dep csp cdp (pre @ xs) w =
   process_source_items os a recurse cur dep csp cdp xs w'"
proof (induction pre arbitrary: w)
  case Nil
  then show ?case by simp
next
  case (Cons item pre)
  then show ?case
    by (auto simp add: Let_def split: sum.splits bool.splits option.splits prod.splits
        result.splits if_splits)
qed

text \<open>
  A call of \<open>copy_folder\<close> that passes the depth check, has its destination folder,
  obtains both listings and gets through the conflicts returns what its source loop
  returns.
\<close>

lemma copy_folder_runs_loop:
  assumes "depth a = None \<or> dep \<le> the (depth a)"
    and "ensure_dest_folder os a (os_path_join os dp cur) w = (Next, w1)"
    and "os_listdir os (fs w1) (os_path_join os sp cur) = Inr source_list"
    and "os_listdir os (fs w1) (os_path_join os dp cur) = Inr dest_list \<or>
         simulate a \<and> os_listdir os (fs w1) (os_path_join os dp cur) = Inl FileNotFoundError \<and>
         dest_list = []"
    and "resolve_conflicts os a ap (os_path_join os dp cur) (os_path_join os ap cur)
           (conflict_list dest_list source_list) w1 = (Next, w2)"
  shows "copy_folder (Suc n) os a sp dp ap cur dep w =
         (case process_source_items os a (copy_folder n os a sp dp ap) cur dep
                 (os_path_join os sp cur) (os_path_join os dp cur) source_list w2 of
            None \<Rightarrow> None
          | Some (Exit r, w3) \<Rightarrow> Some (r, w3)
          | Some (Next, w3) \<Rightarrow> Some (Return 0, w3))"
  using assms by (auto simp add: copy_folder_body_def process_lists_def Let_def)

section \<open>The claims\<close>

subsection \<open>C9: the depth limit\<close>

text \<open>
  Claim C9. With a depth limit \<open>d\<close>:

  \<^item> a call of \<open>copy_folder\<close> whose depth exceeds \<open>d\<close> returns 0 at once and leaves the
    world as it was: no destination directory is created, nothing is listed, resolved
    or copied;

  \<^item> a call whose depth is at most \<open>d\<close> is not cut off. Once it has its destination
    folder, both listings and the conflicts behind it, and its source loop has come
    through the entries \<open>pre\<close> to the entry \<open>item\<close>: when \<open>item\<close> is a file, the call hands
    it to \<open>process_file\<close>, whose completion counts the file as processed, and goes on
    with the remaining entries; when \<open>item\<close> is a directory, the call makes the recursive
    call for it with the depth raised by one (to which this theorem applies again) and
    goes on with the remaining entries when that call returns 0.
\<close>

theorem depth_limit:
  assumes "depth a = Some d"
  shows "(d < dep \<longrightarrow> copy_folder (Suc n) os a sp dp ap cur dep w = Some (Return 0, w)) \<and>
    (dep \<le> d \<and>
     ensure_dest_folder os a (os_path_join os dp cur) w = (Next, w1) \<and>
     os_listdir os (fs w1) (os_path_join os sp cur) = Inr (pre @ item # rest) \<and>
     os_listdir os (fs w1) (os_path_join os dp cur) = Inr dest_list \<and>
     resolve_conflicts os a ap (os_path_join os dp cur) (os_path_join os ap cur)
       (conflict_list dest_list (pre @ item # rest)) w1 = (Next, w2) \<and>
     process_source_items os a (copy_folder n os a sp dp ap) cur dep
       (os_path_join os sp cur) (os_path_join os dp cur) pre w2 = Some (Next, w3) \<and>
     os_stat os (fs w3) (os_path_join os (os_path_join os sp cur) item) = Inr s \<longrightarrow>
       (\<not> S_ISDIR (st_mode s) \<and>
        StatHelper_init os (fs w3) (os_path_join os (os_path_join os dp cur) item) = Inr ds \<and>
        process_file os a (stat_found (os_path_join os (os_path_join os sp cur) item) s) ds w3 =
          (e, w4) \<longrightarrow>
          (e = None \<longrightarrow>
             files_num_processed (info_data w4) = files_num_processed (info_data w3) + 1) \<and>
          copy_folder (Suc n) os a sp dp ap cur dep w =
            (case e of
               Some x \<Rightarrow> Some (Raise x, w4)
             | None \<Rightarrow>
                (case process_source_items os a (copy_folder n os a sp dp ap) cur dep
                        (os_path_join os sp cur) (os_path_join os dp cur) rest w4 of
                   None \<Rightarrow> None
                 | Some (Exit r, w5) \<Rightarrow> Some (r, w5)
                 | Some (Next, w5) \<Rightarrow> Some (Return 0, w5)))) \<and>
       (S_ISDIR (st_mode s) \<longrightarrow>
          copy_folder (Suc n) os a sp dp ap cur dep w =
            (case copy_folder n os a sp dp ap (os_path_join os cur item) (dep + 1) w3 of
               None \<Rightarrow> None
             | Some (Raise x, w5) \<Rightarrow> Some (Raise x, w5)
             | Some (Return res, w5) \<Rightarrow>
                 if res \<noteq> 0 then Some (Return res, w5)
                 else
                  (case process_source_items os a (copy_folder n os a sp dp ap) cur dep
                          (os_path_join os sp cur) (os_path_join os dp cur) rest w5 of
                     None \<Rightarrow> None
                   | Some (Exit r, w6) \<Rightarrow> Some (r, w6)
                   | Some (Next, w6) \<Rightarrow> Some (Return 0, w6)))))"
proof (intro conjI impI)
  assume "d < dep"
  with assms show "copy_folder (Suc n) os a sp dp ap cur dep w = Some (Return 0, w)" by simp
next
  assume h: "dep \<le> d \<and>
     ensure_dest_folder os a (os_path_join os dp cur) w = (Next, w1) \<and>
     os_listdir os (fs w1) (os_path_join os sp cur) = Inr (pre @ item # rest) \<and>
     os_listdir os (fs w1) (os_path_join os dp cur) = Inr dest_list \<and>
     resolve_conflicts os a ap (os_path_join os dp cur) (os_path_join os ap cur)
       (conflict_list dest_list (pre @ item # rest)) w1 = (Next, w2) \<and>
     process_source_items os a (copy_folder n os a sp dp ap) cur dep
       (os_path_join os sp cur) (os_path_join os dp cur) pre w2 = Some (Next, w3) \<and>
     os_stat os (fs w3) (os_path_join os (os_path_join os sp cur) item) = Inr s"
    and f: "\<not> S_ISDIR (st_mode s) \<and>
        StatHelper_init os (fs w3) (os_path_join os (os_path_join os dp cur) item) = Inr ds \<and>
        process_file os a (stat_found (os_path_join os (os_path_join os sp cur) item) s) ds w3 =
          (e, w4)"
  from h assms have "depth a = None \<or> dep \<le> the (depth a)" by simp
  from copy_folder_runs_loop [OF this, of os dp cur w w1 sp "pre @ item # rest" dest_list ap w2 n] h
  have "copy_folder (Suc n) os a sp dp ap cur dep w =
         (case process_source_items os a (copy_folder n os a sp dp ap) cur dep
                 (os_path_join os sp cur) (os_path_join os dp cur) (pre @ item # rest) w2 of
            None \<Rightarrow> None
          | Some (Exit r, w3) \<Rightarrow> Some (r, w3)
          | Some (Next, w3) \<Rightarrow> Some (Return 0, w3))" by simp
  moreover from h have "process_source_items os a (copy_folder n os a sp dp ap) cur dep
       (os_path_join os sp cur) (os_path_join os dp cur) (pre @ item # rest) w2 =
     process_source_items os a (copy_folder n os a sp dp ap) cur dep
       (os_path_join os sp cur) (os_path_join os dp cur) (item # rest) w3"
    by (simp add: process_source_items_append)
  ultimately show "copy_folder (Suc n) os a sp dp ap cur dep w =
            (case e of
               Some x \<Rightarrow> Some (Raise x, w4)
             | None \<Rightarrow>
                (case process_source_items os a (copy_folder n os a sp dp ap) cur dep
                        (os_path_join os sp cur) (os_path_join os dp cur) rest w4 of
                   None \<Rightarrow> None
                 | Some (Exit r, w5) \<Rightarrow> Some (r, w5)
                 | Some (Next, w5) \<Rightarrow> Some (Return 0, w5)))"
    using h f by (simp add: StatHelper_init_found found_methods split: option.splits)
next
  assume f: "\<not> S_ISDIR (st_mode s) \<and>
        StatHelper_init os (fs w3) (os_path_join os (os_path_join os dp cur) item) = Inr ds \<and>
        process_file os a (stat_found (os_path_join os (os_path_join os sp cur) item) s) ds w3 =
          (e, w4)" and "e = None"
  then show "files_num_processed (info_data w4) = files_num_processed (info_data w3) + 1"
    using process_file_counts [of os a "stat_found (os_path_join os (os_path_join os sp cur) item) s" ds w3 w4]
    by simp
next
  assume h: "dep \<le> d \<and>
     ensure_dest_folder os a (os_path_join os dp cur) w = (Next, w1) \<and>
     os_listdir os (fs w1) (os_path_join os sp cur) = Inr (pre @ item # rest) \<and>
     os_listdir os (fs w1) (os_path_join os dp cur) = Inr dest_list \<and>
     resolve_conflicts os a ap (os_path_join os dp cur) (os_path_join os ap cur)
       (conflict_list dest_list (pre @ item # rest)) w1 = (Next, w2) \<and>
     process_source_items os a (copy_folder n os a sp dp ap) cur dep
       (os_path_join os sp cur) (os_path_join os dp cur) pre w2 = Some (Next, w3) \<and>
     os_stat os (fs w3) (os_path_join os (os_path_join os sp cur) item) = Inr s"
    and f: "S_ISDIR (st_mode s)"
  from h assms have "depth a = None \<or> dep \<le> the (depth a)" by simp
  from copy_folder_runs_loop [OF this, of os dp cur w w1 sp "pre @ item # rest" dest_list ap w2 n] h
  have "copy_folder (Suc n) os a sp dp ap cur dep w =
         (case process_source_items os a (copy_folder n os a sp dp ap) cur dep
                 (os_path_join os sp cur) (os_path_join os dp cur) (pre @ item # rest) w2 of
            None \<Rightarrow> None
          | Some (Exit r, w3) \<Rightarrow> Some (r, w3)
          | Some (Next, w3) \<Rightarrow> Some (Return 0, w3))" by simp
  moreover from h have "process_source_items os a (copy_folder n os a sp dp ap) cur dep
       (os_path_join os sp cur) (os_path_join os dp cur) (pre @ item # rest) w2 =
     process_source_items os a (copy_folder n os a sp dp ap) cur dep
       (os_path_join os sp cur) (os_path_join os dp cur) (item # rest) w3"
    by (simp add: process_source_items_append)
  ultimately show "copy_folder (Suc n) os a sp dp ap cur dep w =
            (case copy_folder n os a sp dp ap (os_path_join os cur item) (dep + 1) w3 of
               None \<Rightarrow> None
             | Some (Raise x, w5) \<Rightarrow> Some (Raise x, w5)
             | Some (Return res, w5) \<Rightarrow>
                 if res \<noteq> 0 then Some (Return res, w5)
                 else
                  (case process_source_items os a (copy_folder n os a sp dp ap) cur dep
                          (os_path_join os sp cur) (os_path_join os dp cur) rest w5 of
                     None \<Rightarrow> None
                   | Some (Exit r, w6) \<Rightarrow> Some (r, w6)
                   | Some (Next, w6) \<Rightarrow> Some (Return 0, w6)))"
    using h f by (simp add: StatHelper_init_found found_methods split: option.splits prod.splits result.splits)
qed

text \<open>
  With limit 1 on \<open>fs_depth\<close>: the call for \<open>a/b\<close> (depth 2) does nothing; the call
  for \<open>a\<close> (depth 1) passes the directory \<open>b\<close> and copies the file \<open>g\<close>; the call for
  the root descends into \<open>a\<close> and copies \<open>f\<close>; \<open>a/b/h\<close> is never copied. With limit 1
  on \<open>fs_two_levels\<close> the run creates \<open>/d/a\<close> and copies both files.
\<close>

theorem depth_limit_witness:
  "depth limit_one = Some 1 \<and>
   copy_folder (Suc 0) posix limit_one ''/s'' ''/d'' ''/d/!!archive'' ''a/b'' 2 (start fs_depth) =
     Some (Return 0, start fs_depth) \<and>
   ensure_dest_folder posix limit_one (os_path_join posix ''/d'' ''a'') (start fs_depth) =
     (Next, start fs_depth) \<and>
   os_listdir posix (fs (start fs_depth)) (os_path_join posix ''/s'' ''a'') = Inr ([''b''] @ ''g'' # []) \<and>
   os_listdir posix (fs (start fs_depth)) (os_path_join posix ''/d'' ''a'') = Inr [] \<and>
   resolve_conflicts posix limit_one ''/d/!!archive'' (os_path_join posix ''/d'' ''a'')
     (os_path_join posix ''/d/!!archive'' ''a'') (conflict_list [] ([''b''] @ ''g'' # []))
     (start fs_depth) = (Next, start fs_depth) \<and>
   process_source_items posix limit_one
     (copy_folder (Suc 0) posix limit_one ''/s'' ''/d'' ''/d/!!archive'') ''a'' 1
     (os_path_join posix ''/s'' ''a'') (os_path_join posix ''/d'' ''a'') [''b''] (start fs_depth) =
     Some (Next, start fs_depth) \<and>
   os_stat posix (fs (start fs_depth)) (os_path_join posix (os_path_join posix ''/s'' ''a'') ''g'') =
     Inr (file_node 420 6 7 100) \<and>
   \<not> S_ISDIR (st_mode (file_node 420 6 7 100)) \<and>
   StatHelper_init posix (fs (start fs_depth)) (os_path_join posix (os_path_join posix ''/d'' ''a'') ''g'') =
     Inr (stat_missing ''/d/a/g'') \<and>
   process_file posix limit_one
     (stat_found (os_path_join posix (os_path_join posix ''/s'' ''a'') ''g'') (file_node 420 6 7 100))
     (stat_missing ''/d/a/g'') (start fs_depth) = (None, depth_after_g) \<and>
   files_num_processed (info_data depth_after_g) = files_num_processed (info_data (start fs_depth)) + 1 \<and>
   copy_folder (Suc (Suc 0)) posix limit_one ''/s'' ''/d'' ''/d/!!archive'' ''a'' 1 (start fs_depth) =
     Some (Return 0, depth_after_g) \<and>
   os_stat posix (fs (start fs_depth)) (os_path_join posix (os_path_join posix ''/s'' []) ''a'') =
     Inr (dir_node 493 3) \<and>
   S_ISDIR (st_mode (dir_node 493 3)) \<and>
   map_option (calls \<circ> snd)
     (copy_folder (Suc (Suc (Suc 0))) posix limit_one ''/s'' ''/d'' ''/d/!!archive'' [] 0 (start fs_depth)) =
     Some [Copy2 ''/s/a/g'' ''/d/a/g'', Copy2 ''/s/f'' ''/d/f''] \<and>
   map_option (calls \<circ> snd) (sibackup (Suc (Suc 0)) posix limit_one (start fs_two_levels)) =
     Some [Copy2 ''/s/f'' ''/d/f'', Mkdir ''/d/a'', Copy2 ''/s/a/g'' ''/d/a/g'']"
  using depth_limit [where a = limit_one and d = 1 and dep = 2 and n = 0 and os = posix
      and sp = "''/s''" and dp = "''/d''" and ap = "''/d/!!archive''" and cur = "''a/b''"
      and w = "start fs_depth"]
    depth_limit [where a = limit_one and d = 1 and dep = 1 and n = "Suc 0" and os = posix
      and sp = "''/s''" and dp = "''/d''" and ap = "''/d/!!archive''" and cur = "''a''"
      and w = "start fs_depth" and ?w1.0 = "start fs_depth" and pre = "[''b'']" and item = "''g''"
      and rest = "[]" and dest_list = "[]" and ?w2.0 = "start fs_depth"
      and ?w3.0 = "start fs_depth" and s = "file_node 420 6 7 100"
      and ds = "stat_missing ''/d/a/g''" and e = None and ?w4.0 = depth_after_g]
    depth_limit [where a = limit_one and d = 1 and dep = 0 and n = "Suc (Suc 0)" and os = posix
      and sp = "''/s''" and dp = "''/d''" and ap = "''/d/!!archive''" and cur = "[]"
      and w = "start fs_depth" and ?w1.0 = "start fs_depth" and pre = "[]" and item = "''a''"
      and rest = "[''f'']" and dest_list = "[''a'']" and ?w2.0 = "start fs_depth"
      and ?w3.0 = "start fs_depth" and s = "dir_node 493 3"]
  by (simp add: prog_defs posix_defs fs_depth_def fs_two_levels_def limit_one_def depth_after_g_def)

subsection \<open>C1: a source entry that cannot be read\<close>

text \<open>
  Claim C1 says that a source entry whose probe reports no read permission aborts the
  whole run with status 1. Lines 337--340 return 0 instead. On the file system
  \<open>fs_unreadable\<close> the probe of \<open>/s/a/x\<close> is refused, yet the run ends with status 0,
  and after the refusal the parent directory goes on and copies its next entry \<open>z\<close>.
\<close>

theorem unreadable_source_entry_counterexample:
  "os_stat posix fs_unreadable ''/s/a/x'' = Inl PermissionError \<and>
   map_option fst (sibackup (Suc (Suc 0)) posix default_args (start fs_unreadable)) = Some (Return 0) \<and>
   map_option (calls \<circ> snd) (sibackup (Suc (Suc 0)) posix default_args (start fs_unreadable)) =
     Some [Mkdir ''/d/a'', Copy2 ''/s/z'' ''/d/z'']"
  by (simp add: prog_defs posix_defs fs_unreadable_def)

text \<open>
  Claim C1, amended. Take a call of \<open>copy_folder\<close> that is not cut off by the depth
  limit, has its destination folder, both listings and the conflicts behind it, and
  whose source loop has come through the entries \<open>pre\<close> to an entry \<open>item\<close> whose probe
  reports no read permission. Then

  \<^item> the call returns status 0 (not 1) at that entry, with the world as it was before
    the probe; the remaining entries of that directory are not processed;

  \<^item> status 0 is what a caller takes for success: the source loop of the parent that
    made the call goes on with its own remaining entries;

  \<^item> when the call is the root call, the run ends with status 0, its report printed.
\<close>

theorem unreadable_source_entry:
  assumes "depth a = None \<or> dep \<le> the (depth a)"
    and "ensure_dest_folder os a (os_path_join os dp cur) w = (Next, w1)"
    and "os_listdir os (fs w1) (os_path_join os sp cur) = Inr (pre @ item # rest)"
    and "os_listdir os (fs w1) (os_path_join os dp cur) = Inr dest_list \<or>
         simulate a \<and> os_listdir os (fs w1) (os_path_join os dp cur) = Inl FileNotFoundError \<and>
         dest_list = []"
    and "resolve_conflicts os a ap (os_path_join os dp cur) (os_path_join os ap cur)
           (conflict_list dest_list (pre @ item # rest)) w1 = (Next, w2)"
    and "process_source_items os a (copy_folder n os a sp dp ap) cur dep
           (os_path_join os sp cur) (os_path_join os dp cur) pre w2 = Some (Next, w3)"
    and "os_stat os (fs w3) (os_path_join os (os_path_join os sp cur) item) = Inl PermissionError"
  shows "copy_folder (Suc n) os a sp dp ap cur dep w = Some (Return 0, w3) \<and>
    (os_stat os (fs w) (os_path_join os (os_path_join os sp pcur) pitem) = Inr s \<and>
     S_ISDIR (st_mode s) \<and> cur = os_path_join os pcur pitem \<and> dep = pdep + 1 \<longrightarrow>
       process_source_items os a (copy_folder (Suc n) os a sp dp ap) pcur pdep
         (os_path_join os sp pcur) (os_path_join os dp pcur) (pitem # prest) w =
       process_source_items os a (copy_folder (Suc n) os a sp dp ap) pcur pdep
         (os_path_join os sp pcur) (os_path_join os dp pcur) prest w3) \<and>
    (cur = [] \<and> dep = 0 \<and> sp = os_path_abspath os (source a) \<and>
     dp = os_path_abspath os (destination a) \<and> ap = os_path_join os dp (archivepath a) \<and>
     os_path_exists os (fs w0) sp \<and> ensure_root os a dp w0 = (Next, w0') \<and>
     copymode a \<in> set [0, 1, 2, 3] \<and> conflictmode a \<in> set [0, 1, 2] \<and>
     (if conflictmode a = 1 then ensure_root os a ap w0' else (Next, w0')) = (Next, w) \<and>
     report (info_data w3) = None \<longrightarrow>
       sibackup (Suc n) os a w0 = Some (Return 0, w3))"
proof -
  have "copy_folder (Suc n) os a sp dp ap cur dep w =
         (case process_source_items os a (copy_folder n os a sp dp ap) cur dep
                 (os_path_join os sp cur) (os_path_join os dp cur) (pre @ item # rest) w2 of
            None \<Rightarrow> None
          | Some (Exit r, w3) \<Rightarrow> Some (r, w3)
          | Some (Next, w3) \<Rightarrow> Some (Return 0, w3))"
    using assms(1-5) by (rule copy_folder_runs_loop)
  moreover have "process_source_items os a (copy_folder n os a sp dp ap) cur dep
       (os_path_join os sp cur) (os_path_join os dp cur) (pre @ item # rest) w2 =
     process_source_items os a (copy_folder n os a sp dp ap) cur dep
       (os_path_join os sp cur) (os_path_join os dp cur) (item # rest) w3"
    using assms(6) by (rule process_source_items_append)
  moreover have "process_source_items os a (copy_folder n os a sp dp ap) cur dep
       (os_path_join os sp cur) (os_path_join os dp cur) (item # rest) w3 =
       Some (Exit (Return 0), w3)"
    using assms(7) by (simp add: StatHelper_init_denied denied_methods)
  ultimately have call: "copy_folder (Suc n) os a sp dp ap cur dep w = Some (Return 0, w3)"
    by simp
  have parent: "process_source_items os a (copy_folder (Suc n) os a sp dp ap) pcur pdep
         (os_path_join os sp pcur) (os_path_join os dp pcur) (pitem # prest) w =
       process_source_items os a (copy_folder (Suc n) os a sp dp ap) pcur pdep
         (os_path_join os sp pcur) (os_path_join os dp pcur) prest w3"
    if "os_stat os (fs w) (os_path_join os (os_path_join os sp pcur) pitem) = Inr s"
      and "S_ISDIR (st_mode s)" and "cur = os_path_join os pcur pitem" and "dep = pdep + 1"
    using that call
      child_status_zero_continues [of os w "os_path_join os sp pcur" pitem s
        "copy_folder (Suc n) os a sp dp ap" pcur pdep w3 a "os_path_join os dp pcur" prest]
    by simp
  have root: "sibackup (Suc n) os a w0 = Some (Return 0, w3)"
    if "cur = []" and "dep = 0" and "sp = os_path_abspath os (source a)"
      and "dp = os_path_abspath os (destination a)" and "ap = os_path_join os dp (archivepath a)"
      and "os_path_exists os (fs w0) sp" and "ensure_root os a dp w0 = (Next, w0')"
      and "copymode a \<in> set [0, 1, 2, 3]" and "conflictmode a \<in> set [0, 1, 2]"
      and "(if conflictmode a = 1 then ensure_root os a ap w0' else (Next, w0')) = (Next, w)"
      and "report (info_data w3) = None"
  proof -
    from assms(1) that(2) have "\<not> (depth a \<noteq> None \<and> the (depth a) < 0)" by auto
    with that call show ?thesis
      unfolding sibackup_def Let_def by (auto split: if_splits)
  qed
  show ?thesis
  proof (intro conjI impI)
    show "copy_folder (Suc n) os a sp dp ap cur dep w = Some (Return 0, w3)" by (rule call)
  qed ((elim conjE, rule parent; assumption) | (elim conjE, rule root; assumption))+
qed

text \<open>
  On \<open>fs_unreadable\<close> the call for \<open>a\<close> returns 0 at \<open>x\<close>, leaving \<open>y\<close> unprocessed, and
  the loop of the root goes on to copy \<open>z\<close>. On \<open>fs_unreadable_root\<close> the root call
  itself meets the refused probe and the run ends with status 0.
\<close>

theorem unreadable_source_entry_witness:
  "(depth default_args = None \<or> 1 \<le> the (depth default_args)) \<and>
   ensure_dest_folder posix default_args (os_path_join posix ''/d'' ''a'') (start fs_unreadable) =
     (Next, unreadable_after_mkdir) \<and>
   os_listdir posix (fs unreadable_after_mkdir) (os_path_join posix ''/s'' ''a'') =
     Inr ([] @ ''x'' # [''y'']) \<and>
   os_listdir posix (fs unreadable_after_mkdir) (os_path_join posix ''/d'' ''a'') = Inr [] \<and>
   resolve_conflicts posix default_args ''/d/!!archive'' (os_path_join posix ''/d'' ''a'')
     (os_path_join posix ''/d/!!archive'' ''a'') (conflict_list [] ([] @ ''x'' # [''y'']))
     unreadable_after_mkdir = (Next, unreadable_after_mkdir) \<and>
   os_stat posix (fs unreadable_after_mkdir)
     (os_path_join posix (os_path_join posix ''/s'' ''a'') ''x'') = Inl PermissionError \<and>
   copy_folder (Suc 0) posix default_args ''/s'' ''/d'' ''/d/!!archive'' ''a'' 1 (start fs_unreadable) =
     Some (Return 0, unreadable_after_mkdir) \<and>
   os_stat posix (fs (start fs_unreadable)) (os_path_join posix (os_path_join posix ''/s'' []) ''a'') =
     Inr (dir_node 384 3) \<and>
   S_ISDIR (st_mode (dir_node 384 3)) \<and>
   process_source_items posix default_args
     (copy_folder (Suc 0) posix default_args ''/s'' ''/d'' ''/d/!!archive'') [] 0
     (os_path_join posix ''/s'' []) (os_path_join posix ''/d'' []) [''a'', ''z''] (start fs_unreadable) =
   process_source_items posix default_args
     (copy_folder (Suc 0) posix default_args ''/s'' ''/d'' ''/d/!!archive'') [] 0
     (os_path_join posix ''/s'' []) (os_path_join posix ''/d'' []) [''z''] unreadable_after_mkdir \<and>
   map_option (\<lambda>r. (fst r, calls (snd r)))
     (process_source_items posix default_args
       (copy_folder (Suc 0) posix default_args ''/s'' ''/d'' ''/d/!!archive'') [] 0
       (os_path_join posix ''/s'' []) (os_path_join posix ''/d'' []) [''a'', ''z''] (start fs_unreadable)) =
     Some (Next, [Mkdir ''/d/a'', Copy2 ''/s/z'' ''/d/z'']) \<and>
   os_path_exists posix (fs (start fs_unreadable_root)) ''/s'' \<and>
   os_stat posix (fs (start fs_unreadable_root))
     (os_path_join posix (os_path_join posix ''/s'' []) ''x'') = Inl PermissionError \<and>
   report (info_data (start fs_unreadable_root)) = None \<and>
   sibackup (Suc 0) posix default_args (start fs_unreadable_root) =
     Some (Return 0, start fs_unreadable_root) \<and>
   map_option fst (sibackup (Suc (Suc 0)) posix default_args (start fs_unreadable)) = Some (Return 0)"
  using unreadable_source_entry [where a = default_args and dep = 1 and os = posix
      and dp = "''/d''" and cur = "''a''" and w = "start fs_unreadable"
      and ?w1.0 = unreadable_after_mkdir and sp = "''/s''" and pre = "[]" and item = "''x''"
      and rest = "[''y'']" and dest_list = "[]" and ap = "''/d/!!archive''"
      and ?w2.0 = unreadable_after_mkdir and n = 0 and ?w3.0 = unreadable_after_mkdir
      and pcur = "[]" and pitem = "''a''" and s = "dir_node 384 3" and pdep = 0
      and prest = "[''z'']"]
    unreadable_source_entry [where a = default_args and dep = 0 and os = posix
      and dp = "''/d''" and cur = "[]" and w = "start fs_unreadable_root"
      and ?w1.0 = "start fs_unreadable_root" and sp = "''/s''" and pre = "[]" and item = "''x''"
      and rest = "[]" and dest_list = "[]" and ap = "''/d/!!archive''"
      and ?w2.0 = "start fs_unreadable_root" and n = 0 and ?w3.0 = "start fs_unreadable_root"
      and ?w0.0 = "start fs_unreadable_root" and w0' = "start fs_unreadable_root"]
  by (simp add: prog_defs posix_defs fs_unreadable_def fs_unreadable_root_def
      unreadable_after_mkdir_def)

subsection \<open>C10: a destination file whose probe is refused\<close>

text \<open>
  Claim C10. When the entry of the source is a file that can be read and the probe of
  the destination path raises \<open>PermissionError\<close>, the constructor leaves \<open>_exists\<close>
  unassigned, the call of \<open>exists()\<close> in line 361 raises \<open>AttributeError\<close>, and nothing
  of the loop catches it: \<open>copy_folder\<close> ends with that exception. The program asks
  \<open>has_permission()\<close> of source entries only.
\<close>

theorem denied_dest_probe:
  assumes "os_stat os (fs w) (os_path_join os csp item) = Inr s" and "\<not> S_ISDIR (st_mode s)"
    and "os_stat os (fs w) (os_path_join os cdp item) = Inl PermissionError"
  shows "StatHelper_init os (fs w) (os_path_join os cdp item) =
           Inr (stat_denied (os_path_join os cdp item)) \<and>
         attr_exists (stat_denied (os_path_join os cdp item)) = None \<and>
         sh_exists (stat_denied (os_path_join os cdp item)) = Inl AttributeError \<and>
         process_source_items os a recurse cur dep csp cdp (item # rest) w =
           Some (Exit (Raise AttributeError), w)"
proof -
  have "attr_exists (stat_denied (os_path_join os cdp item)) = None"
    by (simp add: stat_denied_def)
  moreover have "process_source_items os a recurse cur dep csp cdp (item # rest) w =
      Some (Exit (Raise AttributeError), w)"
    using assms
    by (simp add: StatHelper_init_found StatHelper_init_denied found_methods denied_methods
        process_file_def choose_action_def)
  ultimately show ?thesis
    using assms(3) by (simp add: StatHelper_init_denied denied_methods)
qed

text \<open>
  The destination \<open>/d\<close> of \<open>fs_dest_no_search\<close> can be listed but not searched, so the
  probe of \<open>/d/f\<close> is refused; the whole run ends with \<open>AttributeError\<close>.
\<close>

theorem denied_dest_probe_witness:
  "os_stat posix (fs (start fs_dest_no_search)) (os_path_join posix ''/s/'' ''f'') =
     Inr (file_node 420 3 10 100) \<and>
   \<not> S_ISDIR (st_mode (file_node 420 3 10 100)) \<and>
   os_stat posix (fs (start fs_dest_no_search)) (os_path_join posix ''/d/'' ''f'') =
     Inl PermissionError \<and>
   process_source_items posix default_args (copy_folder 0 posix default_args ''/s'' ''/d'' ''/d/!!archive'')
     [] 0 ''/s/'' ''/d/'' [''f''] (start fs_dest_no_search) =
     Some (Exit (Raise AttributeError), start fs_dest_no_search) \<and>
   sibackup (Suc 0) posix default_args (start fs_dest_no_search) =
     Some (Raise AttributeError, start fs_dest_no_search)"
  using denied_dest_probe [of posix "start fs_dest_no_search" "''/s/''" "''f''"
      "file_node 420 3 10 100" "''/d/''" default_args
      "copy_folder 0 posix default_args ''/s'' ''/d'' ''/d/!!archive''" "[]" 0 "[]"]
  by (simp add: prog_defs posix_defs fs_dest_no_search_def)

subsection \<open>C5 and C6: the copy decision and the counters of a file\<close>

text \<open>
  The source entry is a file that was probed successfully, \<open>stat_found p s\<close>; the
  destination was probed as missing or as present, \<open>dest_probe q d\<close>.
\<close>

lemma dest_probe_methods:
  "sh_exists (dest_probe q d) = Inr (d \<noteq> None)"
  "getmtime (dest_probe q (Some t)) = Inr (st_mtime t)"
  "getsize (dest_probe q (Some t)) = Inr (st_size t)"
  "path_name (dest_probe q d) = q"
  by (cases d; simp add: dest_probe_def found_methods missing_methods)+

text \<open>The branch that the program takes, by the decision of the specification's policy.\<close>

lemma choose_action_policy:
  "choose_action a (stat_found p s) (dest_probe q d) =
     Inr (case policy_decision (copymode a) s d of
            DoCopy \<Rightarrow> Copy
          | DoSkip \<Rightarrow> if copymode a = 3 then Pass else Skip)"
  by (cases d)
     (auto simp add: choose_action_def policy_decision_def dest_probe_methods found_methods
        py_and_def differ_def)

text \<open>
  Claim C5. For a source file and a destination whose metadata could be read, the
  program copies exactly when the chain of the specification says so: destination
  missing; mode 0; mode at least 1 and different modification times (whichever is
  newer); mode at least 2 and different sizes. Where the chain says copy, the
  program takes its copy branch and calls \<open>copy_file\<close>; where it says skip, the
  program takes another branch, changes nothing in the file system, calls nothing and
  counts no copy.
\<close>

theorem copy_decision_chain:
  "(policy_decision (copymode a) s d = DoCopy \<longrightarrow>
      choose_action a (stat_found p s) (dest_probe q d) = Inr Copy \<and>
      process_file os a (stat_found p s) (dest_probe q d) w =
        (case copy_file os a (stat_found p s) (dest_probe q d) w of
           (None, w1) \<Rightarrow> (None, count_processed w1)
         | (Some e, w1) \<Rightarrow> (Some e, w1))) \<and>
   (policy_decision (copymode a) s d = DoSkip \<longrightarrow>
      choose_action a (stat_found p s) (dest_probe q d) \<noteq> Inr Copy \<and>
      fst (process_file os a (stat_found p s) (dest_probe q d) w) = None \<and>
      fs (snd (process_file os a (stat_found p s) (dest_probe q d) w)) = fs w \<and>
      calls (snd (process_file os a (stat_found p s) (dest_probe q d) w)) = calls w \<and>
      files_num_copied (info_data (snd (process_file os a (stat_found p s) (dest_probe q d) w))) =
        files_num_copied (info_data w))"
  by (simp add: process_file_def choose_action_policy found_methods count_processed_def
      upd_info_def)

theorem copy_decision_chain_witness:
  "policy_decision (copymode (default_args\<lparr>copymode := 1\<rparr>)) (file_node 420 3 10 100)
     (Some (file_node 420 5 10 200)) = DoCopy \<and>
   choose_action (default_args\<lparr>copymode := 1\<rparr>) (stat_found ''/s/f'' (file_node 420 3 10 100))
     (dest_probe ''/d/f'' (Some (file_node 420 5 10 200))) = Inr Copy \<and>
   policy_decision (copymode default_args) (file_node 420 3 10 100)
     (Some (file_node 420 5 10 100)) = DoSkip \<and>
   calls (snd (process_file posix default_args (stat_found ''/s/f'' (file_node 420 3 10 100))
     (dest_probe ''/d/f'' (Some (file_node 420 5 10 100))) (start fs_same))) = []"
  using copy_decision_chain [of "default_args\<lparr>copymode := 1\<rparr>" "file_node 420 3 10 100"
      "Some (file_node 420 5 10 200)" "''/s/f''" "''/d/f''" posix "start fs_same"]
    copy_decision_chain [of default_args "file_node 420 3 10 100"
      "Some (file_node 420 5 10 100)" "''/s/f''" "''/d/f''" posix "start fs_same"]
  by (simp add: policy_decision_def default_args_def file_node_def start_def)

text \<open>
  Claim C6 says that every file that is not copied is counted as skipped, the fallback
  of copy mode 3 included. In mode 3 a file whose modification time and size equal the
  destination's reaches \<open>pass\<close> (lines 380--381): it is counted as processed and
  neither as copied nor as skipped.
\<close>

theorem hash_mode_counterexample:
  "policy_decision 3 (file_node 420 3 10 100) (Some (file_node 420 5 10 100)) = DoSkip \<and>
   map_option (info_data \<circ> snd)
     (sibackup (Suc 0) posix (default_args\<lparr>copymode := 3\<rparr>) (start fs_same)) =
   Some (info_data_init\<lparr>files_num_processed := 1\<rparr>)"
  by (simp add: prog_defs posix_defs fs_same_def policy_decision_def)

text \<open>
  Claim C6, amended. Every file that \<open>process_file\<close> completes adds exactly one to the
  counter of processed files. When the decision is not to copy and the copy mode is
  not 3, the number of skipped files grows by one and the skipped bytes by the size of
  the source; in copy mode 3 neither of the two changes.
\<close>

theorem processed_and_skipped_counters:
  assumes "process_file os a (stat_found p s) (dest_probe q d) w = (None, w1)"
  shows "files_num_processed (info_data w1) = files_num_processed (info_data w) + 1 \<and>
     (policy_decision (copymode a) s d = DoSkip \<longrightarrow>
        (if copymode a = 3
         then files_num_skipped (info_data w1) = files_num_skipped (info_data w) \<and>
              files_size_skipped (info_data w1) = files_size_skipped (info_data w)
         else files_num_skipped (info_data w1) = files_num_skipped (info_data w) + 1 \<and>
              files_size_skipped (info_data w1) = files_size_skipped (info_data w) + st_size s))"
proof (cases "policy_decision (copymode a) s d")
  case DoCopy
  with assms obtain w2 where c: "copy_file os a (stat_found p s) (dest_probe q d) w = (None, w2)"
    and w1: "w1 = count_processed w2"
    by (auto simp add: process_file_def choose_action_policy split: prod.splits option.splits)
  from copy_file_keeps_processed [OF c] w1 DoCopy show ?thesis
    by (simp add: count_processed_def upd_info_def)
next
  case DoSkip
  with assms show ?thesis
    by (auto simp add: process_file_def choose_action_policy found_methods count_processed_def
        upd_info_def split: if_splits)
qed

theorem processed_and_skipped_counters_witness:
  "process_file posix default_args (stat_found ''/s/f'' (file_node 420 3 10 100))
     (dest_probe ''/d/f'' (Some (file_node 420 5 10 100))) (start fs_same) =
     (None, (start fs_same)\<lparr>info_data := info_data_init\<lparr>files_num_processed := 1,
        files_num_skipped := 1, files_size_skipped := 10\<rparr>\<rparr>) \<and>
   policy_decision (copymode default_args) (file_node 420 3 10 100)
     (Some (file_node 420 5 10 100)) = DoSkip \<and>
   files_num_processed (info_data ((start fs_same)\<lparr>info_data := info_data_init\<lparr>files_num_processed := 1,
        files_num_skipped := 1, files_size_skipped := 10\<rparr>\<rparr>)) =
     files_num_processed (info_data (start fs_same)) + 1 \<and>
   files_num_skipped (info_data ((start fs_same)\<lparr>info_data := info_data_init\<lparr>files_num_processed := 1,
        files_num_skipped := 1, files_size_skipped := 10\<rparr>\<rparr>)) =
     files_num_skipped (info_data (start fs_same)) + 1"
proof -
  have h: "process_file posix default_args (stat_found ''/s/f'' (file_node 420 3 10 100))
     (dest_probe ''/d/f'' (Some (file_node 420 5 10 100))) (start fs_same) =
     (None, (start fs_same)\<lparr>info_data := info_data_init\<lparr>files_num_processed := 1,
        files_num_skipped := 1, files_size_skipped := 10\<rparr>\<rparr>)"
    by (simp add: prog_defs posix_defs dest_probe_def)
  from processed_and_skipped_counters [OF h] h show ?thesis
    by (simp add: policy_decision_def default_args_def file_node_def)
qed

subsection \<open>C2: simulate mode and the permission bits\<close>

text \<open>
  Claim C2. A run with \<open>--simulate\<close> performs no mutation of the file system. The
  program guards every creating, copying, moving and removing call with
  \<open>if not args.simulate\<close>, but not the \<open>os.chmod\<close> of lines 274--276. On
  \<open>fs_readonly_conflict\<close> with the default conflict mode (delete) and \<open>--simulate\<close>, the
  conflict \<open>/d/b\<close> is read-only: the run returns 0, its only call is
  \<open>chmod /d/b S_IWRITE\<close>, and the mode of \<open>/d/b\<close> has changed from 0444 to 0200.
\<close>

theorem simulate_changes_mode:
  "simulate (default_args\<lparr>simulate := True\<rparr>) \<and>
   os_stat posix fs_readonly_conflict ''/d/b'' = Inr (file_node 292 4 3 50) \<and>
   map_option fst (sibackup (Suc 0) posix (default_args\<lparr>simulate := True\<rparr>)
     (start fs_readonly_conflict)) = Some (Return 0) \<and>
   map_option (calls \<circ> snd) (sibackup (Suc 0) posix (default_args\<lparr>simulate := True\<rparr>)
     (start fs_readonly_conflict)) = Some [Chmod ''/d/b'' 128] \<and>
   map_option (\<lambda>r. os_stat posix (fs (snd r)) ''/d/b'')
     (sibackup (Suc 0) posix (default_args\<lparr>simulate := True\<rparr>) (start fs_readonly_conflict)) =
     Some (Inr (file_node 128 4 3 50)) \<and>
   map_option (\<lambda>r. fs (snd r) = fs_readonly_conflict)
     (sibackup (Suc 0) posix (default_args\<lparr>simulate := True\<rparr>) (start fs_readonly_conflict)) =
     Some False"
  by (simp add: prog_defs posix_defs fs_readonly_conflict_def)

subsection \<open>C4: the archive directory as a conflict\<close>


subsection \<open>C7: an invalid configuration\<close>

text \<open>
  Claim C7 says that a run with an invalid configuration performs no mutation, and in
  particular does not create the destination directory. The program creates the
  destination (lines 404--417) before it looks at the depth and the two modes (lines
  419--430). With depth \<open>-1\<close> and no destination, the run returns 1 after it has
  created \<open>/d\<close>.
\<close>

theorem invalid_configuration_counterexample:
  "depth (default_args\<lparr>depth := Some (- 1)\<rparr>) = Some (- 1) \<and>
   \<not> os_path_exists posix fs_no_dest ''/d'' \<and>
   map_option (\<lambda>r. (fst r, calls (snd r), os_path_exists posix (fs (snd r)) ''/d''))
     (sibackup 0 posix (default_args\<lparr>depth := Some (- 1)\<rparr>) (start fs_no_dest)) =
     Some (Return 1, [Makedirs ''/d''], True)"
  by (simp add: prog_defs posix_defs fs_no_dest_def)

text \<open>
  Claim C7, amended. A run with an invalid configuration (a negative depth limit, a
  copy mode outside 0..3 or a conflict mode outside 0..2) ends before the archive root
  is created and before the traversal starts, whatever the recursion budget. The only
  call it can make is \<open>os.makedirs\<close> of the destination, when the source exists, the
  destination does not and the run is not simulated; the file system is then what
  that call leaves, and the status is 1 unless the call raises an error other than
  \<open>PermissionError\<close>, which ends the run. In every other case the status is 1 and the file
  system is unchanged.
\<close>

theorem invalid_configuration:
  assumes "(depth a \<noteq> None \<and> the (depth a) < 0) \<or> copymode a \<notin> set [0, 1, 2, 3] \<or>
           conflictmode a \<notin> set [0, 1, 2]"
  shows "(if os_path_exists os (fs w) (os_path_abspath os (source a)) \<and>
           \<not> os_path_exists os (fs w) (os_path_abspath os (destination a)) \<and> \<not> simulate a
         then map_option (calls \<circ> snd) (sibackup n os a w) =
                Some (calls w @ [Makedirs (os_path_abspath os (destination a))]) \<and>
              map_option (fs \<circ> snd) (sibackup n os a w) =
                Some (fst (os_makedirs os (fs w) (os_path_abspath os (destination a)))) \<and>
              map_option fst (sibackup n os a w) =
                Some (case snd (os_makedirs os (fs w) (os_path_abspath os (destination a))) of
                        None \<Rightarrow> Return 1
                      | Some e \<Rightarrow> if e = PermissionError then Return 1 else Raise e)
         else map_option (calls \<circ> snd) (sibackup n os a w) = Some (calls w) \<and>
              map_option (fs \<circ> snd) (sibackup n os a w) = Some (fs w) \<and>
              map_option fst (sibackup n os a w) = Some (Return 1))"
proof (cases "os_path_exists os (fs w) (os_path_abspath os (source a))")
  case False
  then show ?thesis by (simp add: sibackup_def Let_def)
next
  case True
  note src = this
  show ?thesis
  proof (cases "os_path_exists os (fs w) (os_path_abspath os (destination a)) \<or> simulate a")
    case True
    with src assms show ?thesis
      by (auto simp add: sibackup_def ensure_root_def count_created_def upd_info_def Let_def)
  next
    case False
    obtain f' x where m: "os_makedirs os (fs w) (os_path_abspath os (destination a)) = (f', x)"
      by (cases "os_makedirs os (fs w) (os_path_abspath os (destination a))")
    with src False assms show ?thesis
      by (cases x)
         (auto simp add: sibackup_def ensure_root_def mutate_def count_created_def upd_info_def Let_def)
  qed
qed

theorem invalid_configuration_witness:
  "((depth (default_args\<lparr>depth := Some (- 1)\<rparr>) \<noteq> None \<and>
     the (depth (default_args\<lparr>depth := Some (- 1)\<rparr>)) < 0) \<or>
    copymode (default_args\<lparr>depth := Some (- 1)\<rparr>) \<notin> set [0, 1, 2, 3] \<or>
    conflictmode (default_args\<lparr>depth := Some (- 1)\<rparr>) \<notin> set [0, 1, 2]) \<and>
   map_option (calls \<circ> snd) (sibackup (Suc (Suc 0)) posix (default_args\<lparr>depth := Some (- 1)\<rparr>)
     (start fs_no_dest)) = Some [Makedirs ''/d''] \<and>
   map_option fst (sibackup (Suc (Suc 0)) posix (default_args\<lparr>depth := Some (- 1)\<rparr>)
     (start fs_no_dest)) = Some (Return 1) \<and>
   copymode (default_args\<lparr>copymode := 7\<rparr>) \<notin> set [0, 1, 2, 3] \<and>
   sibackup (Suc (Suc 0)) posix (default_args\<lparr>copymode := 7\<rparr>) (start fs_two_levels) =
     Some (Return 1, start fs_two_levels)"
  using invalid_configuration [of "default_args\<lparr>depth := Some (- 1)\<rparr>" posix "start fs_no_dest"
      "Suc (Suc 0)"]
    invalid_configuration [of "default_args\<lparr>copymode := 7\<rparr>" posix "start fs_two_levels"
      "Suc (Suc 0)"]
  by (simp add: prog_defs posix_defs fs_no_dest_def fs_two_levels_def)

subsection \<open>C8: a destination directory that cannot be found when it is listed\<close>



end
